theory Spec2Isabelle
  imports Complex_Main "HOL-Library.Sublist" "HOL-Library.AList"
begin

section \<open>Python values\<close>

text \<open>
  The pipeline passes dynamically typed records between its stages: dictionaries decoded
  from a language model's JSON, floats, strings, lists. A Python float is modelled by its
  exact rational value (or one of the three special values), so that a comparison of two
  floats is the comparison of their values, as IEEE 754 defines it. Text is modelled as a
  list of characters with code points below 256.
\<close>

datatype pyfloat = NaN | NegInf | Fin rat | PosInf

datatype pyval =
    PNone
  | PBool bool
  | PInt int
  | PFloat pyfloat
  | PStr string
  | PList "pyval list"
  | PDict "(string \<times> pyval) list"

type_synonym pydict = "(string \<times> pyval) list"

datatype error = KeyError string | TypeError | AttributeError | IndexError

text \<open>\<open>a < b\<close> on floats: every comparison with NaN is false.\<close>

fun float_lt :: "pyfloat \<Rightarrow> pyfloat \<Rightarrow> bool" where
  "float_lt NaN _ = False"
| "float_lt _ NaN = False"
| "float_lt _ NegInf = False"
| "float_lt NegInf _ = True"
| "float_lt PosInf _ = False"
| "float_lt _ PosInf = True"
| "float_lt (Fin a) (Fin b) = (a < b)"

text \<open>The numeric value of an operand of \<open>>\<close>; \<open>bool\<close> is a subtype of \<open>int\<close>,
  and an \<open>int\<close> is compared with a float exactly.\<close>

fun num_of :: "pyval \<Rightarrow> pyfloat option" where
  "num_of (PBool b) = Some (Fin (if b then 1 else 0))"
| "num_of (PInt i) = Some (Fin (of_int i))"
| "num_of (PFloat f) = Some f"
| "num_of _ = None"

text \<open>\<open>v > t\<close> for a float literal \<open>t\<close>: a \<open>TypeError\<close> when \<open>v\<close> is not a number.\<close>

definition py_gt :: "pyval \<Rightarrow> pyfloat \<Rightarrow> error + bool" where
  "py_gt v t = (case num_of v of None \<Rightarrow> Inl TypeError | Some f \<Rightarrow> Inr (float_lt t f))"

text \<open>Truth value of an object in a condition (\<open>if v\<close>, \<open>not v\<close>, \<open>a and b\<close>).\<close>

fun truthy :: "pyval \<Rightarrow> bool" where
  "truthy PNone = False"
| "truthy (PBool b) = b"
| "truthy (PInt i) = (i \<noteq> 0)"
| "truthy (PFloat f) = (f \<noteq> Fin 0)"
| "truthy (PStr s) = (s \<noteq> [])"
| "truthy (PList xs) = (xs \<noteq> [])"
| "truthy (PDict d) = (d \<noteq> [])"

text \<open>\<open>d.get(k, default)\<close>, \<open>k in d\<close> and \<open>d[k]\<close>.\<close>

definition dict_get :: "pydict \<Rightarrow> string \<Rightarrow> pyval \<Rightarrow> pyval" where
  "dict_get d k dflt = (case map_of d k of None \<Rightarrow> dflt | Some v \<Rightarrow> v)"

definition dict_has :: "pydict \<Rightarrow> string \<Rightarrow> bool" where
  "dict_has d k = (map_of d k \<noteq> None)"

definition dict_item :: "pydict \<Rightarrow> string \<Rightarrow> error + pyval" where
  "dict_item d k = (case map_of d k of None \<Rightarrow> Inl (KeyError k) | Some v \<Rightarrow> Inr v)"

text \<open>The float literals of the decision policy and of the calculator sanity check, as
  the exact values of the doubles they denote.\<close>

definition lit_0_5 :: pyfloat where "lit_0_5 = Fin (1 / 2)"
definition lit_0_7 :: pyfloat where "lit_0_7 = Fin (3152519739159347 / 4503599627370496)"
definition lit_0_9 :: pyfloat where "lit_0_9 = Fin (8106479329266893 / 9007199254740992)"
definition lit_0_95 :: pyfloat where "lit_0_95 = Fin (4278419646001971 / 4503599627370496)"
definition lit_1e100 :: rat where
  "lit_1e100 = 10000000000000000159028911097599180468360808563945281389781327557747838772170381060813469985856815104"

section \<open>Strings\<close>

definition newline :: char where "newline = CHR 0x0A"

text \<open>\<open>str.isspace\<close> on one character, which is also the class \<open>\s\<close> of \<open>re\<close>.\<close>

definition isspace :: "char \<Rightarrow> bool" where
  "isspace c = (let n = (of_char c :: nat) in
     (9 \<le> n \<and> n \<le> 13) \<or> (28 \<le> n \<and> n \<le> 32) \<or> n = 133 \<or> n = 160)"

definition isdigit :: "char \<Rightarrow> bool" where
  "isdigit c = (let n = (of_char c :: nat) in 48 \<le> n \<and> n \<le> 57)"

definition strip :: "string \<Rightarrow> string" where
  "strip s = rev (dropWhile isspace (rev (dropWhile isspace s)))"

text \<open>\<open>sub in s\<close>.\<close>

fun contains :: "string \<Rightarrow> string \<Rightarrow> bool" where
  "contains sub [] = (sub = [])"
| "contains sub (c # cs) = (prefix sub (c # cs) \<or> contains sub cs)"

text \<open>\<open>s.find(sub)\<close>: the lowest index of an occurrence, or \<open>-1\<close>.\<close>

fun find_from :: "string \<Rightarrow> int \<Rightarrow> string \<Rightarrow> int" where
  "find_from sub i [] = (if sub = [] then i else -1)"
| "find_from sub i (c # cs) = (if prefix sub (c # cs) then i else find_from sub (i + 1) cs)"

definition find :: "string \<Rightarrow> string \<Rightarrow> int" where
  "find s sub = find_from sub 0 s"

text \<open>\<open>s.rfind(c)\<close> for a single character: the highest index, or \<open>-1\<close>.\<close>

fun rfind_from :: "char \<Rightarrow> int \<Rightarrow> int \<Rightarrow> string \<Rightarrow> int" where
  "rfind_from c i best [] = best"
| "rfind_from c i best (x # xs) = rfind_from c (i + 1) (if x = c then i else best) xs"

definition rfind :: "string \<Rightarrow> char \<Rightarrow> int" where
  "rfind s c = rfind_from c 0 (-1) s"

text \<open>\<open>s[start:end]\<close> for indices that are not negative.\<close>

definition slice :: "string \<Rightarrow> int \<Rightarrow> int \<Rightarrow> string" where
  "slice s start end = drop (nat start) (take (nat end) s)"

text \<open>\<open>s.split(sep)\<close> for a separator that is not empty: the pieces between the
  occurrences of \<open>sep\<close>, found from left to right without overlap.\<close>

function split_at :: "string \<Rightarrow> string \<Rightarrow> string \<Rightarrow> string list" where
  "split_at sep acc s =
     (if s = [] \<or> sep = [] then [rev acc]
      else if prefix sep s then rev acc # split_at sep [] (drop (length sep) s)
      else split_at sep (hd s # acc) (tl s))"
  by pat_completeness auto
termination
  by (relation "measure (\<lambda>(sep, acc, s). length s)") auto

declare split_at.simps [simp del]

definition split :: "string \<Rightarrow> string \<Rightarrow> string list" where
  "split s sep = split_at sep [] s"

text \<open>\<open>re.sub(r'^\d+\.\s*', '', s)\<close>: a leading step number, its dot and the blanks
  after it are removed.\<close>

definition strip_numbering :: "string \<Rightarrow> string" where
  "strip_numbering s =
     (let ds = takeWhile isdigit s; rest = dropWhile isdigit s in
      if ds \<noteq> [] \<and> prefix ''.'' rest then dropWhile isspace (tl rest) else s)"

text \<open>\<open>re.search(r"```json\s*(.*?)```", s, re.DOTALL)\<close>, giving group 1. The leftmost
  fence opener that has a closing fence after it is the first opener of the text, and the
  lazy group ends at the first closing fence after the blanks.\<close>

definition search_json_fence :: "string \<Rightarrow> string option" where
  "search_json_fence s =
     (let i = find s ''```json'' in
      if i = -1 then None
      else
        let rest = dropWhile isspace (drop (nat i + 7) s);
            j = find rest ''```''
        in if j = -1 then None else Some (take (nat j) rest))"

text \<open>The extraction every JSON-producing agent applies to a model's reply before
  decoding it: the body of a fenced block, else the text from the first \<open>{\<close> to the
  last \<open>}\<close>, else the reply as it is.\<close>

definition extract_json_text :: "string \<Rightarrow> string" where
  "extract_json_text content_str =
     (case search_json_fence content_str of
        Some g \<Rightarrow> strip g
      | None \<Rightarrow>
          let start = find content_str ''{'';
              end = rfind content_str (CHR ''}'') + 1
          in if start \<noteq> -1 \<and> end \<noteq> 0 then slice content_str start end else content_str)"

section \<open>Collaborators\<close>

text \<open>
  What the pipeline calls and does not define: the interpreter's built-ins
  (\<open>json.loads\<close>, \<open>json.dumps\<close>, \<open>float\<close>, \<open>str\<close> of a value that is not a string,
  \<open>str.upper\<close>, \<open>uuid4\<close>), the language-model agents (each a function from the prompt to
  the text of the reply), the input parser, the knowledge store's query, and the
  calculator's expression recovery and symbolic engine. \<open>json_loads\<close> gives \<open>Inl\<close> of
  the exception's message when decoding raises; \<open>py_float\<close> gives \<open>None\<close> when
  \<open>float\<close> raises.
\<close>

record env =
  json_loads :: "string \<Rightarrow> string + pyval"
  json_dumps :: "pyval \<Rightarrow> string"
  py_float :: "pyval \<Rightarrow> pyfloat option"
  py_repr :: "pyval \<Rightarrow> string"
  str_upper :: "string \<Rightarrow> string"
  uuid4 :: string
  parser_run :: "string option \<Rightarrow> string option \<Rightarrow> string option \<Rightarrow> pydict"
  router_run :: "string \<Rightarrow> string"
  kb_query :: "pyval \<Rightarrow> string list"
  planner_run :: "string \<Rightarrow> string"
  guardrail_run :: "string \<Rightarrow> string"
  executor_run :: "string \<Rightarrow> string"
  verifier_run :: "string \<Rightarrow> string"
  explainer_run :: "string \<Rightarrow> string"
  calc_simple_parse :: "string \<Rightarrow> string option"
  calc_llm_parse :: "string \<Rightarrow> string option"
  sympy_compute :: "string \<Rightarrow> string + (string \<times> pyfloat option \<times> string)"

text \<open>\<open>str(v)\<close>, and a value formatted into an f-string.\<close>

definition py_str :: "env \<Rightarrow> pyval \<Rightarrow> string" where
  "py_str e v = (case v of PStr s \<Rightarrow> s | _ \<Rightarrow> py_repr e v)"

text \<open>The collaborator calls a run makes, in order.\<close>

datatype call =
    CreateSession string
  | LogInteraction string
  | ParserRun
  | RouterRoute
  | SolverSolve
  | KbQuery
  | PlannerRun
  | GuardrailCheck
  | ExecutorRun
  | CalculatorSolve
  | VerifierVerify
  | ExplainerExplain
  | KbAdd string pydict string

section \<open>Guardrail gate\<close>

text \<open>\<open>GuardrailAgent.check\<close>: the verdict is whatever the evaluator's reply decodes to;
  when decoding raises, the gate's own blocking verdict.\<close>

definition guardrail_prompt :: "env \<Rightarrow> pyval \<Rightarrow> string \<Rightarrow> string" where
  "guardrail_prompt e problem_text plan =
     ''Problem: '' @ py_str e problem_text @ [newline, newline]
     @ ''Proposed Plan:'' @ [newline] @ plan"

definition check :: "env \<Rightarrow> pyval \<Rightarrow> string \<Rightarrow> pyval" where
  "check e problem_text plan =
     (let content_str = guardrail_run e (guardrail_prompt e problem_text plan)
      in case json_loads e (extract_json_text content_str) of
           Inr verdict \<Rightarrow> verdict
         | Inl msg \<Rightarrow>
             PDict [(''is_safe'', PBool False),
                    (''violation_type'', PStr ''Guardrail_Error''),
                    (''reason'', PStr (''Guardrail failed to parse confirmation: '' @ msg)),
                    (''recommended_action'', PStr ''TRIGGER_HITL'')])"

section \<open>Verify stage\<close>

text \<open>\<open>VerifierAgent._sanity_check_calculator\<close>. The bare \<open>except\<close> around \<open>float\<close>
  accepts every answer that \<open>float\<close> rejects.\<close>

definition sanity_check_calculator :: "env \<Rightarrow> pydict \<Rightarrow> bool" where
  "sanity_check_calculator e solution_data =
     (let final_answer = dict_get solution_data ''final_answer'' PNone in
      if final_answer = PNone \<or> final_answer = PStr [] then False
      else if (case py_float e final_answer of
                 Some num_val \<Rightarrow>
                   \<not> (float_lt (Fin (- lit_1e100)) num_val \<and> float_lt num_val (Fin lit_1e100))
               | None \<Rightarrow> False) then False
      else if \<not> truthy (dict_get solution_data ''steps'' PNone) then False
      else True)"

text \<open>\<open>VerifierAgent.verify\<close>. A calculator solution that passes the sanity check is
  verified on the spot; every other solution goes to the critique evaluator, and the
  verdict is what its reply decodes to.\<close>

definition verifier_prompt :: "env \<Rightarrow> pyval \<Rightarrow> pydict \<Rightarrow> bool \<Rightarrow> string" where
  "verifier_prompt e problem_text solution_data strict =
     (let solution_str = json_dumps e (PDict solution_data);
          prompt = ''Problem: '' @ py_str e problem_text @ [newline]
                   @ ''Solution: '' @ solution_str @ [newline] @ ''Verify this.''
      in if strict then
           ''STRICT AUDIT MODE ENABLED.'' @ [newline]
           @ ''1. CHECK EVERY SINGLE ALGEBRAIC STEP.'' @ [newline]
           @ ''2. FAIL IF ANY DOMAIN RESTRICTION IS MISSED.'' @ [newline]
           @ ''3. FAIL IF PLAN DOES NOT MATCH EXECUTION.'' @ [newline]
           @ prompt
         else prompt)"

definition verify :: "env \<Rightarrow> pyval \<Rightarrow> pydict \<Rightarrow> bool \<Rightarrow> pyval" where
  "verify e problem_text solution_data strict =
     (if dict_get solution_data ''tool_used'' PNone = PStr ''calculator''
         \<and> sanity_check_calculator e solution_data
      then PDict [(''is_correct'', PBool True),
                  (''critique'', PStr ''Correct (verified by SymPy calculator)''),
                  (''adjusted_confidence'', PFloat (Fin 1)),
                  (''verification_method'', PStr ''symbolic'')]
      else
        let content = verifier_run e (verifier_prompt e problem_text solution_data strict)
        in case json_loads e (extract_json_text content) of
             Inr verdict \<Rightarrow> verdict
           | Inl msg \<Rightarrow>
               PDict [(''is_correct'', PBool False),
                      (''critique'', PStr (''JSON parsing failed. Error: '' @ msg
                                           @ ''. Raw response: '' @ content)),
                      (''adjusted_confidence'', PFloat (Fin 0))])"

section \<open>Explainer\<close>

text \<open>\<open>re.search(r'\{.*\}', s, re.DOTALL)\<close>, giving group 0: from the first \<open>{\<close> to
  the last \<open>}\<close>, when the last \<open>}\<close> comes after the first \<open>{\<close>.\<close>

definition search_braces :: "string \<Rightarrow> string option" where
  "search_braces s =
     (let i = find s ''{''; j = rfind s (CHR ''}'') in
      if i \<noteq> -1 \<and> i < j then Some (slice s i (j + 1)) else None)"

definition opt_str :: "string option \<Rightarrow> pyval" where
  "opt_str x = (case x of None \<Rightarrow> PNone | Some s \<Rightarrow> PStr s)"

text \<open>\<open>ExplainerAgent.explain\<close>.\<close>

definition explain :: "env \<Rightarrow> pyval \<Rightarrow> pyval \<Rightarrow> pyval \<Rightarrow> string option \<Rightarrow> pyval" where
  "explain e problem_text solution_steps final_answer category =
     (let prompt = [newline] @ ''Problem: '' @ py_str e problem_text @ [newline]
                   @ ''Category: '' @ py_str e (opt_str category) @ [newline]
                   @ ''Steps: '' @ py_str e solution_steps @ [newline]
                   @ ''Final Answer: '' @ py_str e final_answer @ [newline, newline]
                   @ ''Generate a structured JEE-style explanation following the output format.''
                   @ [newline];
          content = explainer_run e prompt
      in case search_braces content of
           Some m \<Rightarrow>
             (case json_loads e m of
                Inr explanation_data \<Rightarrow> explanation_data
              | Inl msg \<Rightarrow>
                  PDict [(''concept'', opt_str category),
                         (''strategy'', PStr ''Standard approach''),
                         (''key_insight'', PStr (take 300 content)),
                         (''learning_points'', PList [PStr ''Focus on the methodology'']),
                         (''common_mistakes'', PList []),
                         (''difficulty'', PStr ''Medium''),
                         (''jee_relevance'', PStr ''JEE Main''),
                         (''error'', PStr msg)])
         | None \<Rightarrow>
             PDict [(''concept'', opt_str category),
                    (''strategy'', PStr ''Direct computation''),
                    (''key_insight'', PStr (take 200 content)),
                    (''learning_points'', PList [PStr ''Review the solution carefully'']),
                    (''common_mistakes'', PList []),
                    (''difficulty'', PStr ''Medium''),
                    (''jee_relevance'', PStr ''JEE Main'')])"

section \<open>Calculator\<close>

text \<open>\<open>Calculator.parse_query\<close>: the pattern rewrites first, then the translation by
  the language model; \<open>(success, expression, error_message)\<close>.\<close>

definition parse_query :: "env \<Rightarrow> string \<Rightarrow> bool \<times> string option \<times> string option" where
  "parse_query e query =
     (case calc_simple_parse e query of
        Some simple_expr \<Rightarrow>
          if simple_expr \<noteq> [] then (True, Some simple_expr, None)
          else (case calc_llm_parse e query of
                  Some llm_expr \<Rightarrow> (True, Some llm_expr, None)
                | None \<Rightarrow> (False, None, Some ''Could not parse mathematical expression''))
      | None \<Rightarrow>
          (case calc_llm_parse e query of
             Some llm_expr \<Rightarrow> (True, Some llm_expr, None)
           | None \<Rightarrow> (False, None, Some ''Could not parse mathematical expression'')))"

text \<open>\<open>Calculator.compute\<close>: every exception of the symbolic engine becomes a record
  with \<open>success = False\<close>.\<close>

definition compute :: "env \<Rightarrow> string \<Rightarrow> pydict" where
  "compute e expression =
     (case sympy_compute e expression of
        Inr (symbolic, numerical, latex) \<Rightarrow>
          [(''success'', PBool True),
           (''symbolic'', PStr symbolic),
           (''numerical'', (case numerical of None \<Rightarrow> PNone | Some f \<Rightarrow> PFloat f)),
           (''latex'', PStr latex),
           (''engine'', PStr ''sympy'')]
      | Inl msg \<Rightarrow>
          [(''success'', PBool False),
           (''error'', PStr (''SymPy computation failed: '' @ msg))])"

text \<open>\<open>Calculator.solve_arithmetic\<close>. The query is lower-cased as a string first, which
  raises on a value that is not one.\<close>

definition solve_arithmetic :: "env \<Rightarrow> pyval \<Rightarrow> error + pydict" where
  "solve_arithmetic e query =
     (case query of
        PStr q \<Rightarrow>
          (case parse_query e q of
             (True, Some expression, _) \<Rightarrow>
               Inr (AList.update ''original_query'' query
                     (AList.update ''parsed_expression'' (PStr expression) (compute e expression)))
           | (_, _, err) \<Rightarrow>
               Inr [(''success'', PBool False),
                    (''error'', opt_str err),
                    (''raw_query'', query)])
      | _ \<Rightarrow> Inl AttributeError)"

section \<open>Solve stage\<close>

text \<open>\<open>SolverAgent._solve_with_tool\<close>: the calculator's record, reshaped into a
  solution attempt.\<close>

definition solve_with_tool :: "env \<Rightarrow> pyval \<Rightarrow> call list \<times> (error + pydict)" where
  "solve_with_tool e problem_text =
     ([CalculatorSolve],
      case solve_arithmetic e problem_text of
        Inl err \<Rightarrow> Inl err
      | Inr result \<Rightarrow>
          (case dict_item result ''success'' of
             Inl err \<Rightarrow> Inl err
           | Inr success \<Rightarrow>
               if truthy success then
                 Inr [(''plan'', PStr ''Direct computation via SymPy''),
                      (''steps'', PList
                         [PStr (''Parsed expression: ''
                                @ py_str e (dict_get result ''parsed_expression'' (PStr ''N/A''))),
                          PStr (''Computed exact value: ''
                                @ py_str e (dict_get result ''symbolic'' (PStr ''N/A'')))]),
                      (''final_answer'', PStr (py_str e
                         (let numerical = dict_get result ''numerical'' PNone in
                          if truthy numerical then numerical
                          else dict_get result ''symbolic'' PNone))),
                      (''confidence'', PFloat (Fin 1)),
                      (''context'', PStr ''Exact symbolic computation tool used''),
                      (''tool_used'', PStr ''calculator'')]
               else
                 Inr [(''plan'', PStr ''Tool computation failed''),
                      (''steps'', PList []),
                      (''final_answer'', PStr ''Error''),
                      (''confidence'', PFloat (Fin 0)),
                      (''error'', PStr (''Calculator error: ''
                                        @ py_str e (dict_get result ''error'' PNone))),
                      (''tool_used'', PStr ''calculator'')]))"

text \<open>The body of the \<open>try\<close> block of \<open>SolverAgent.solve\<close> that reads the executor's
  delimited reply: \<open>Inl\<close> of the exception's message when it raises, else the steps, the
  final answer and the confidence. Unpacking a split into two names raises unless there
  are exactly two pieces; \<open>float\<close> failing on the confidence text gives 1.0.\<close>

definition STEPS :: string where "STEPS = ''---STEPS---''"
definition FINAL_ANSWER :: string where "FINAL_ANSWER = ''---FINAL_ANSWER---''"
definition CONFIDENCE :: string where "CONFIDENCE = ''---CONFIDENCE---''"

definition unpack_error :: string where
  "unpack_error = ''too many values to unpack (expected 2)''"

definition no_steps_error :: string where
  "no_steps_error = ''Could not extract steps with delimiters''"

definition parse_steps :: "string \<Rightarrow> string list" where
  "parse_steps steps_part =
     (let raw_steps = map strip (filter (\<lambda>line. strip line \<noteq> []) (split steps_part [newline]))
      in map strip_numbering raw_steps)"

definition parse_answer :: "env \<Rightarrow> string \<Rightarrow> string + (string \<times> pyfloat)" where
  "parse_answer e remaining =
     (if contains CONFIDENCE remaining then
        (case split remaining CONFIDENCE of
           [ans_part, conf_part] \<Rightarrow>
             Inr (strip ans_part,
                  (case py_float e (PStr (strip conf_part)) of
                     Some c \<Rightarrow> c
                   | None \<Rightarrow> Fin 1))
         | _ \<Rightarrow> Inl unpack_error)
      else Inr (strip remaining, Fin 0))"

definition parse_sections :: "env \<Rightarrow> string \<Rightarrow> string + (string list \<times> string \<times> pyfloat)" where
  "parse_sections e content_str =
     (if contains STEPS content_str then
        (case split content_str STEPS of
           _ # parts # _ \<Rightarrow>
             if contains FINAL_ANSWER parts then
               (case split parts FINAL_ANSWER of
                  [steps_part, remaining] \<Rightarrow>
                    (case parse_answer e remaining of
                       Inl msg \<Rightarrow> Inl msg
                     | Inr (final_answer, confidence) \<Rightarrow>
                         Inr (parse_steps steps_part, final_answer, confidence))
                | _ \<Rightarrow> Inl unpack_error)
             else Inr ([], ''Error'', Fin 0)
         | _ \<Rightarrow> Inl ''list index out of range'')
      else Inr ([], ''Error'', Fin 0))"

definition parse_executor_output ::
  "env \<Rightarrow> string \<Rightarrow> string + (string list \<times> string \<times> pyfloat)" where
  "parse_executor_output e content_str =
     (case parse_sections e content_str of
        Inl msg \<Rightarrow> Inl msg
      | Inr (steps, final_answer, confidence) \<Rightarrow>
          if steps = [] then Inl no_steps_error
          else Inr (steps, final_answer, confidence))"

text \<open>The pieces of \<open>SolverAgent.solve\<close> outside the arithmetic path: the context
  (retrieved when none was given, cut to 1500 characters), the plan, and the executor's
  reply to the prompt built from them.\<close>

definition context_of :: "env \<Rightarrow> pyval \<Rightarrow> string \<Rightarrow> string" where
  "context_of e problem_text context_arg =
     (if context_arg = [] then
        (let docs = kb_query e problem_text in if docs \<noteq> [] then take 1500 (hd docs) else [])
      else context_arg)"

definition plan_of :: "env \<Rightarrow> pyval \<Rightarrow> string" where
  "plan_of e problem_text =
     planner_run e (''Problem: '' @ py_str e problem_text @ [newline]
                    @ ''Create a strategy plan.'')"

definition executor_reply :: "env \<Rightarrow> pyval \<Rightarrow> string \<Rightarrow> string" where
  "executor_reply e problem_text context_arg =
     executor_run e
       (''Problem: '' @ py_str e problem_text @ [newline]
        @ ''Context Highlghts: '' @ context_of e problem_text context_arg @ [newline]
        @ ''Plan: '' @ plan_of e problem_text @ [newline]
        @ ''Execute this and return with ---SECTION--- delimiters.'')"

text \<open>\<open>SolverAgent.solve\<close>. The result carries the collaborator calls made, in order.\<close>

definition solve ::
  "env \<Rightarrow> pyval \<Rightarrow> string option \<Rightarrow> string \<Rightarrow> call list \<times> (error + pydict)" where
  "solve e problem_text problem_type context_arg =
     (if problem_type = Some ''ARITHMETIC'' then solve_with_tool e problem_text
      else
        let context_str = context_of e problem_text context_arg;
            calls = (if context_arg = [] then [KbQuery] else []) @ [PlannerRun, GuardrailCheck];
            plan = plan_of e problem_text;
            guard_result = check e problem_text plan
        in case guard_result of
             PDict guard \<Rightarrow>
               if \<not> truthy (dict_get guard ''is_safe'' (PBool False)) then
                 (calls,
                  Inr [(''plan'', PStr plan),
                       (''steps'', PList []),
                       (''final_answer'', PStr ''Guardrail Intercepted''),
                       (''confidence'', PFloat (Fin 0)),
                       (''error'', PStr (''Guardrail Violation: ''
                          @ py_str e (dict_get guard ''violation_type'' PNone) @ '' - ''
                          @ py_str e (dict_get guard ''reason'' PNone) @ ''. Rec: ''
                          @ py_str e (dict_get guard ''recommended_action'' PNone))),
                       (''context'', PStr context_str)])
               else
                 let content = executor_reply e problem_text context_arg
                 in (calls @ [ExecutorRun],
                     case parse_executor_output e content of
                       Inr (steps, final_answer, confidence) \<Rightarrow>
                         Inr [(''plan'', PStr plan),
                              (''steps'', PList (map PStr steps)),
                              (''final_answer'', PStr final_answer),
                              (''confidence'', PFloat confidence),
                              (''context'', PStr context_str)]
                     | Inl msg \<Rightarrow>
                         Inr [(''plan'', PStr plan),
                              (''steps'', PList [PStr ''Error parsing solver output'']),
                              (''final_answer'', PStr ''Error''),
                              (''confidence'', PFloat (Fin 0)),
                              (''error'', PStr (''Solver Parse Error: '' @ msg
                                                @ ''. Raw: '' @ content))])
           | _ \<Rightarrow> (calls, Inl AttributeError))"

section \<open>Pipeline state\<close>

text \<open>\<open>PipelineState\<close>. The model class does not validate on assignment, so a field
  holds whatever a stage's record gave.\<close>

record PipelineState =
  session_id :: string
  step :: string
  raw_input :: "string option"
  input_images :: "string list"
  input_audio :: "string option"
  parsed_data :: pydict
  problem_category :: "string option"
  solution_plan :: pyval
  solution_steps :: pyval
  final_answer :: pyval
  confidence :: pyval
  tool_used :: pyval
  rag_context :: pyval
  verification_passed :: pyval
  critique :: pyval
  explanation :: pyval
  needs_hitl :: bool
  hitl_reason :: "string option"

definition new_state ::
  "string \<Rightarrow> string option \<Rightarrow> string list \<Rightarrow> string option \<Rightarrow> PipelineState" where
  "new_state sid text images audio =
     \<lparr> session_id = sid, step = ''init'', raw_input = text, input_images = images,
       input_audio = audio, parsed_data = [], problem_category = None,
       solution_plan = PNone, solution_steps = PList [], final_answer = PNone,
       confidence = PFloat (Fin 0), tool_used = PNone, rag_context = PNone,
       verification_passed = PBool False, critique = PNone, explanation = PNone,
       needs_hitl = False, hitl_reason = None \<rparr>"

section \<open>Orchestrator\<close>

text \<open>\<open>IntentRouterAgent.route\<close>.\<close>

definition route :: "env \<Rightarrow> pyval \<Rightarrow> string" where
  "route e problem_text =
     str_upper e (strip (router_run e (''Classify this problem: '' @ py_str e problem_text)))"

text \<open>\<open>a and b\<close> in a condition, where evaluating an operand may raise: \<open>b\<close> is not
  evaluated when \<open>a\<close> is false.\<close>

definition cond_and :: "error + bool \<Rightarrow> error + bool \<Rightarrow> error + bool" where
  "cond_and a b = (case a of Inl err \<Rightarrow> Inl err | Inr x \<Rightarrow> if x then b else Inr False)"

text \<open>The block "Smart HITL Logic" of \<open>Orchestrator.run_solver_phase\<close>: from the state
  after verification and the verifier's confidence to the state with the flag decided.\<close>

definition smart_hitl :: "env \<Rightarrow> PipelineState \<Rightarrow> pyval \<Rightarrow> error + PipelineState" where
  "smart_hitl e state0 verifier_conf =
     (let solver_conf = confidence state0;
          state = state0\<lparr>needs_hitl := True\<rparr>
      in
      if tool_used state = PStr ''calculator'' then
        (case py_gt verifier_conf lit_0_5 of
           Inl err \<Rightarrow> Inl err
         | Inr sane \<Rightarrow>
             if sane then Inr (state\<lparr>needs_hitl := False\<rparr>)
             else Inr (state\<lparr>hitl_reason :=
                    Some (''Calculator Sanity Check Failed: '' @ py_str e (critique state))\<rparr>))
      else
        (case cond_and (Inr (truthy (verification_passed state)))
                (cond_and (py_gt solver_conf lit_0_9) (py_gt verifier_conf lit_0_7)) of
           Inl err \<Rightarrow> Inl err
         | Inr consensus \<Rightarrow>
             if consensus then Inr (state\<lparr>needs_hitl := False\<rparr>)
             else
               (case cond_and (Inr (truthy (verification_passed state)))
                       (py_gt solver_conf lit_0_95) of
                  Inl err \<Rightarrow> Inl err
                | Inr override \<Rightarrow>
                    if override then Inr (state\<lparr>needs_hitl := False\<rparr>)
                    else Inr (state\<lparr>hitl_reason :=
                           Some (''Verification Failed. Solver: '' @ py_str e solver_conf
                                 @ '', Verifier: '' @ py_str e verifier_conf
                                 @ '', Critique: '' @ py_str e (critique state))\<rparr>))))"

text \<open>The solution record the orchestrator rebuilds for the verifier.\<close>

definition solution_data_of :: "PipelineState \<Rightarrow> pydict" where
  "solution_data_of state =
     [(''steps'', solution_steps state),
      (''final_answer'', final_answer state),
      (''tool_used'', tool_used state)]"

definition problem_text_of :: "PipelineState \<Rightarrow> pyval" where
  "problem_text_of state = dict_get (parsed_data state) ''problem_text'' (PStr [])"

text \<open>The state after the solver's record has been stored.\<close>

definition store_solution :: "PipelineState \<Rightarrow> pydict \<Rightarrow> PipelineState" where
  "store_solution state solution =
     state\<lparr> solution_steps := dict_get solution ''steps'' (PList []),
            final_answer := dict_get solution ''final_answer'' (PStr []),
            confidence := dict_get solution ''confidence'' (PFloat (Fin 0)),
            solution_plan := dict_get solution ''plan'' (PStr []),
            rag_context := dict_get solution ''context'' (PStr ''No context retrieved''),
            tool_used := dict_get solution ''tool_used'' PNone,
            step := ''solved'' \<rparr>"

text \<open>\<open>Orchestrator.run_solver_phase\<close>: solve, verify, decide, and explain when no
  human is needed. \<open>verification["is_correct"]\<close> raises on a verdict that is not a
  dictionary or lacks the key.\<close>

definition run_solver_phase ::
  "env \<Rightarrow> PipelineState \<Rightarrow> call list \<times> (error + PipelineState)" where
  "run_solver_phase e state0 =
     (case solve e (problem_text_of state0) (problem_category state0) [] of
        (calls, Inl err) \<Rightarrow> (SolverSolve # calls, Inl err)
      | (calls, Inr solution) \<Rightarrow>
          let state = store_solution state0 solution;
              calls = SolverSolve # calls @ [LogInteraction ''solver'', VerifierVerify];
              verification = verify e (problem_text_of state) (solution_data_of state) False
          in (case verification of
               PDict verdict \<Rightarrow>
                 (case dict_item verdict ''is_correct'' of
                    Inl err \<Rightarrow> (calls, Inl err)
                  | Inr is_correct \<Rightarrow>
                      let state = state\<lparr> verification_passed := is_correct,
                                         critique := dict_get verdict ''critique'' (PStr []) \<rparr>;
                          calls = calls @ [LogInteraction ''verifier''];
                          verifier_conf = dict_get verdict ''adjusted_confidence'' (PFloat (Fin 1))
                      in (case smart_hitl e state verifier_conf of
                            Inl err \<Rightarrow> (calls, Inl err)
                          | Inr state \<Rightarrow>
                              if needs_hitl state then (calls, Inr (state\<lparr>step := ''verified''\<rparr>))
                              else
                                (calls @ [ExplainerExplain, LogInteraction ''explainer''],
                                 Inr (state\<lparr> explanation :=
                                               explain e (problem_text_of state)
                                                 (solution_steps state) (final_answer state)
                                                 (problem_category state),
                                             step := ''complete'' \<rparr>))))
             | _ \<Rightarrow> (calls, Inl TypeError)))"

text \<open>\<open>Orchestrator.start_pipeline\<close>.\<close>

definition start_pipeline ::
  "env \<Rightarrow> string option \<Rightarrow> string option \<Rightarrow> string option \<Rightarrow> string option
     \<Rightarrow> call list \<times> (error + PipelineState)" where
  "start_pipeline e text image_path audio_path session_arg =
     (let fresh = (session_arg = None \<or> session_arg = Some []);
          sid = (case session_arg of None \<Rightarrow> uuid4 e
                 | Some s \<Rightarrow> if s = [] then uuid4 e else s);
          calls = (if fresh then [CreateSession sid] else []);
          state = new_state sid text
                    (case image_path of None \<Rightarrow> [] | Some p \<Rightarrow> if p = [] then [] else [p])
                    audio_path;
          parsed = parser_run e text image_path audio_path;
          state = state\<lparr>parsed_data := parsed\<rparr>;
          calls = calls @ [ParserRun, LogInteraction ''parser'']
      in
      if truthy (dict_get parsed ''is_ambiguous'' PNone) then
        (calls,
         Inr (state\<lparr> needs_hitl := True,
                     hitl_reason := Some (''Ambiguous Input: ''
                        @ py_str e (dict_get parsed ''ambiguity_reason'' PNone)),
                     step := ''parsed'' \<rparr>))
      else
        let category = route e (dict_get parsed ''problem_text'' (PStr []));
            state = state\<lparr>problem_category := Some category, step := ''routed''\<rparr>;
            calls = calls @ [RouterRoute, LogInteraction ''router'']
        in case run_solver_phase e state of
             (calls', result) \<Rightarrow> (calls @ calls', result))"

text \<open>\<open>Orchestrator.learn_from_success\<close>: the call it makes to the knowledge store's
  \<open>add_documents\<close> (one document, its metadata, its id), or none. A failure inside the
  store is caught and only printed.\<close>

definition learn_from_success :: "env \<Rightarrow> PipelineState \<Rightarrow> call list" where
  "learn_from_success e state =
     (if \<not> truthy (dict_get (parsed_data state) ''problem_text'' PNone)
         \<or> \<not> truthy (final_answer state) then []
      else
        let doc_text = ''Problem: '' @ py_str e (dict_get (parsed_data state) ''problem_text'' PNone)
                       @ [newline] @ ''Solution Plan: '' @ py_str e (solution_plan state)
                       @ [newline] @ ''Final Answer: '' @ py_str e (final_answer state);
            metadata = [(''type'', PStr ''solved_example''),
                        (''category'', opt_str (problem_category state)),
                        (''confidence'', PFloat (Fin 1)),
                        (''source'', PStr ''user_feedback'')];
            doc_id = ''learn_'' @ take 8 (session_id state)
        in [KbAdd doc_text metadata doc_id])"

text \<open>\<open>Orchestrator.resume_with_feedback\<close>: the first key present decides, in the order
  \<open>corrected_text\<close>, \<open>override_answer\<close>, \<open>approve\<close>.\<close>

definition resume_with_feedback ::
  "env \<Rightarrow> PipelineState \<Rightarrow> pydict \<Rightarrow> call list \<times> (error + PipelineState)" where
  "resume_with_feedback e state feedback =
     (if dict_has feedback ''corrected_text'' then
        let parsed = AList.update ''is_ambiguous'' (PBool False)
                       (AList.update ''problem_text''
                          (dict_get feedback ''corrected_text'' PNone) (parsed_data state));
            state = state\<lparr>parsed_data := parsed, needs_hitl := False\<rparr>;
            category = route e (dict_get parsed ''problem_text'' PNone);
            state = state\<lparr>problem_category := Some category\<rparr>
        in case run_solver_phase e state of
             (calls, result) \<Rightarrow> (RouterRoute # calls, result)
      else if dict_has feedback ''override_answer'' then
        let state = state\<lparr> final_answer := dict_get feedback ''override_answer'' PNone,
                           needs_hitl := False,
                           verification_passed := PBool True,
                           step := ''verified'' \<rparr>;
            state = state\<lparr> explanation :=
                             explain e (problem_text_of state)
                               (PList [PStr ''User provided solution''])
                               (final_answer state) (problem_category state),
                           step := ''complete'' \<rparr>
        in (ExplainerExplain # learn_from_success e state, Inr state)
      else if dict_has feedback ''approve'' \<and> truthy (dict_get feedback ''approve'' PNone) then
        let state = state\<lparr> needs_hitl := False, verification_passed := PBool True \<rparr>;
            state = state\<lparr> explanation :=
                             explain e (problem_text_of state) (solution_steps state)
                               (final_answer state) (problem_category state),
                           step := ''complete'' \<rparr>
        in (ExplainerExplain # learn_from_success e state, Inr state)
      else ([], Inr state))"

section \<open>Reading a verdict\<close>

text \<open>A field of a decoded record; \<open>None\<close> when the value is not a dictionary or has
  no such key.\<close>

definition field :: "pyval \<Rightarrow> string \<Rightarrow> pyval" where
  "field v k = (case v of PDict d \<Rightarrow> dict_get d k PNone | _ \<Rightarrow> PNone)"

text \<open>The verdict \<open>GuardrailAgent.check\<close> builds itself when the reply cannot be
  decoded.\<close>

definition fail_closed_verdict :: "string \<Rightarrow> pyval" where
  "fail_closed_verdict msg =
     PDict [(''is_safe'', PBool False),
            (''violation_type'', PStr ''Guardrail_Error''),
            (''reason'', PStr (''Guardrail failed to parse confirmation: '' @ msg)),
            (''recommended_action'', PStr ''TRIGGER_HITL'')]"

text \<open>The invariant of a guardrail verdict: an unsafe verdict does not recommend
  execution.\<close>

definition verdict_invariant :: "pyval \<Rightarrow> bool" where
  "verdict_invariant v =
     (field v ''is_safe'' = PBool False \<longrightarrow> field v ''recommended_action'' \<noteq> PStr ''EXECUTE'')"

text \<open>\<open>v > t\<close> holds (and does not raise).\<close>

definition gt :: "pyval \<Rightarrow> pyfloat \<Rightarrow> bool" where
  "gt v t = (py_gt v t = Inr True)"

section \<open>Concrete runs\<close>

text \<open>
  Replies and built-in results for the runs the theorems below are evaluated on. Each
  table lists what the interpreter gives on the texts of these runs: \<open>json.loads\<close> on
  the JSON replies, \<open>float\<close> and \<open>str\<close> on the values that occur. Floats are written
  as the exact values of the doubles (\<open>0.92\<close>, \<open>0.6\<close>, \<open>1e+200\<close>).
\<close>

definition json_error :: string where
  "json_error = ''Expecting value: line 1 column 1 (char 0)''"

definition f_0_92 :: pyfloat where "f_0_92 = Fin (8286623314361713 / 9007199254740992)"
definition f_0_6 :: pyfloat where "f_0_6 = Fin (5404319552844595 / 9007199254740992)"
definition f_1e200 :: pyfloat where
  "f_1e200 = Fin 99999999999999996973312221251036165947450327545502362648241750950346848435554075534196338404706251868027512415973882408182135734368278484639385041047239877871023591066789981811181813306167128854888448"

definition reply_safe :: string where
  "reply_safe = ''{\"is_safe\": true, \"violation_type\": null, \"reason\": null, \"recommended_action\": \"EXECUTE\"}''"

definition verdict_safe :: pyval where
  "verdict_safe = PDict [(''is_safe'', PBool True), (''violation_type'', PNone),
                         (''reason'', PNone), (''recommended_action'', PStr ''EXECUTE'')]"

definition reply_unsafe_execute :: string where
  "reply_unsafe_execute = ''{\"is_safe\": false, \"violation_type\": \"Rule 5\", \"reason\": \"explicit equation\", \"recommended_action\": \"EXECUTE\"}''"

definition verdict_unsafe_execute :: pyval where
  "verdict_unsafe_execute =
     PDict [(''is_safe'', PBool False), (''violation_type'', PStr ''Rule 5''),
            (''reason'', PStr ''explicit equation''), (''recommended_action'', PStr ''EXECUTE'')]"

definition reply_correct_0_6 :: string where
  "reply_correct_0_6 = ''{\"is_correct\": true, \"critique\": \"Correct\", \"adjusted_confidence\": 0.6}''"

definition verdict_correct_0_6 :: pyval where
  "verdict_correct_0_6 =
     PDict [(''is_correct'', PBool True), (''critique'', PStr ''Correct''),
            (''adjusted_confidence'', PFloat f_0_6)]"

definition reply_correct_1 :: string where
  "reply_correct_1 = ''{\"is_correct\": true, \"critique\": \"Correct\", \"adjusted_confidence\": 1.0}''"

definition verdict_correct_1 :: pyval where
  "verdict_correct_1 =
     PDict [(''is_correct'', PBool True), (''critique'', PStr ''Correct''),
            (''adjusted_confidence'', PFloat (Fin 1))]"

definition reply_no_confidence :: string where
  "reply_no_confidence = ''{\"is_correct\": true, \"critique\": \"Looks fine\"}''"

definition verdict_no_confidence :: pyval where
  "verdict_no_confidence =
     PDict [(''is_correct'', PBool True), (''critique'', PStr ''Looks fine'')]"

definition demo_loads :: "string \<Rightarrow> string + pyval" where
  "demo_loads s =
     (if s = reply_safe then Inr verdict_safe
      else if s = reply_unsafe_execute then Inr verdict_unsafe_execute
      else if s = reply_correct_0_6 then Inr verdict_correct_0_6
      else if s = reply_correct_1 then Inr verdict_correct_1
      else if s = reply_no_confidence then Inr verdict_no_confidence
      else Inl json_error)"

definition demo_float :: "pyval \<Rightarrow> pyfloat option" where
  "demo_float v =
     (if v = PStr ''0.92'' then Some f_0_92
      else if v = PStr ''1e+200'' then Some f_1e200
      else None)"

definition demo_repr :: "pyval \<Rightarrow> string" where
  "demo_repr v =
     (if v = PNone then ''None''
      else if v = PBool True then ''True''
      else if v = PBool False then ''False''
      else if v = PFloat (Fin 0) then ''0.0''
      else if v = PFloat (Fin 1) then ''1.0''
      else if v = PFloat f_0_92 then ''0.92''
      else if v = PFloat f_0_6 then ''0.6''
      else if v = PFloat f_1e200 then ''1e+200''
      else if v = PList [] then ''[]''
      else ''...'')"

definition ascii_upper :: "string \<Rightarrow> string" where
  "ascii_upper s =
     map (\<lambda>c. let n = (of_char c :: nat) in
               if 97 \<le> n \<and> n \<le> 122 then char_of (n - 32) else c) s"

definition executor_reply_0_92 :: string where
  "executor_reply_0_92 =
     ''---STEPS---'' @ [newline]
     @ ''1. Take the square root of both sides'' @ [newline]
     @ ''2. Keep both signs'' @ [newline]
     @ ''---FINAL_ANSWER---'' @ [newline]
     @ ''x = 2 or x = -2'' @ [newline]
     @ ''---CONFIDENCE---'' @ [newline]
     @ ''0.92''"

text \<open>A run on a text problem: routed to algebra, the plan passes the gate, the executor
  reports confidence 0.92, the verifier agrees with confidence 0.6. The calculator, not
  reached on this run, recovers no expression.\<close>

definition demo_env :: env where
  "demo_env =
     \<lparr> json_loads = demo_loads,
       json_dumps = (\<lambda>v. ''{}''),
       py_float = demo_float,
       py_repr = demo_repr,
       str_upper = ascii_upper,
       uuid4 = ''0b5c2a9e-7d41-4c1f-9a53-2f6e8d1c4b70'',
       parser_run = (\<lambda>text image_path audio_path.
          [(''problem_text'', PStr ''Solve x^2 = 4''),
           (''input_type'', PStr ''text''),
           (''is_ambiguous'', PBool False),
           (''ambiguity_reason'', PNone),
           (''raw_input_combined'', PStr ''User Text: Solve x^2 = 4''),
           (''sources'', PList [PStr ''text''])]),
       router_run = (\<lambda>prompt. ''algebra''),
       kb_query = (\<lambda>q. []),
       planner_run = (\<lambda>prompt. ''**Concept:** Quadratic. **Strategy:** 1. Take square roots.''),
       guardrail_run = (\<lambda>prompt. reply_safe),
       executor_run = (\<lambda>prompt. executor_reply_0_92),
       verifier_run = (\<lambda>prompt. reply_correct_0_6),
       explainer_run = (\<lambda>prompt. ''Square roots come in pairs.''),
       calc_simple_parse = (\<lambda>q. None),
       calc_llm_parse = (\<lambda>q. None),
       sympy_compute = (\<lambda>expr. Inl ''invalid syntax'') \<rparr>"

text \<open>The parser's record for an input with nothing in it.\<close>

definition parsed_nothing :: pydict where
  "parsed_nothing =
     [(''problem_text'', PStr []),
      (''input_type'', PStr ''none''),
      (''is_ambiguous'', PBool True),
      (''ambiguity_reason'', PStr ''No valid input provided''),
      (''raw_input_combined'', PStr []),
      (''sources'', PList [])]"

text \<open>The text of a solution's \<open>error\<close> annotation; empty when there is none.\<close>

definition error_text :: "pydict \<Rightarrow> string" where
  "error_text solution = (case dict_get solution ''error'' PNone of PStr m \<Rightarrow> m | _ \<Rightarrow> [])"

text \<open>The verdict \<open>VerifierAgent.verify\<close> builds itself when the evaluator's reply
  cannot be decoded.\<close>

definition verifier_fallback :: "string \<Rightarrow> string \<Rightarrow> pyval" where
  "verifier_fallback msg content =
     PDict [(''is_correct'', PBool False),
            (''critique'', PStr (''JSON parsing failed. Error: '' @ msg
                                 @ ''. Raw response: '' @ content)),
            (''adjusted_confidence'', PFloat (Fin 0))]"

text \<open>The range the calculator sanity check accepts: \<open>-1e100 < x < 1e100\<close>.\<close>

definition in_range :: "pyfloat \<Rightarrow> bool" where
  "in_range x = (float_lt (Fin (- lit_1e100)) x \<and> float_lt x (Fin lit_1e100))"

text \<open>A calculator solution whose answer is out of range.\<close>

definition solution_1e200 :: pydict where
  "solution_1e200 =
     [(''steps'', PList [PStr ''Parsed expression: (10)**200'',
                         PStr ''Computed exact value: 1'' ]),
      (''final_answer'', PStr ''1e+200''),
      (''tool_used'', PStr ''calculator'')]"

section \<open>Observing a run of the solver phase\<close>

text \<open>What \<open>run_solver_phase\<close> computes on the way, named so that a statement can
  speak of it: the state once the solver's record is stored, the verdict the verifier
  returns for it, and the verifier confidence the decision reads from that verdict
  (\<open>verification.get("adjusted_confidence", 1.0)\<close>).\<close>

definition solved_state :: "env \<Rightarrow> PipelineState \<Rightarrow> PipelineState" where
  "solved_state e state0 =
     (case solve e (problem_text_of state0) (problem_category state0) [] of
        (calls, Inr solution) \<Rightarrow> store_solution state0 solution
      | (calls, Inl err) \<Rightarrow> state0)"

definition verification_of :: "env \<Rightarrow> PipelineState \<Rightarrow> pyval" where
  "verification_of e state0 =
     (case solve e (problem_text_of state0) (problem_category state0) [] of
        (calls, Inr solution) \<Rightarrow>
          verify e (problem_text_of state0) (solution_data_of (store_solution state0 solution)) False
      | (calls, Inl err) \<Rightarrow> PNone)"

definition verifier_conf_of :: "env \<Rightarrow> PipelineState \<Rightarrow> pyval" where
  "verifier_conf_of e state0 =
     (case verification_of e state0 of
        PDict verdict \<Rightarrow> dict_get verdict ''adjusted_confidence'' (PFloat (Fin 1))
      | _ \<Rightarrow> PNone)"

text \<open>The state of that run after routing to a category.\<close>

definition demo_state :: "string \<Rightarrow> PipelineState" where
  "demo_state category =
     (new_state (uuid4 demo_env) (Some ''Solve x^2 = 4'') [] None)
       \<lparr> parsed_data := parser_run demo_env (Some ''Solve x^2 = 4'') None None,
         problem_category := Some category,
         step := ''routed'' \<rparr>"

text \<open>An evaluator's reply in prose, and the solution record of a calculator that could
  not recover an expression.\<close>

definition reply_no_value :: string where
  "reply_no_value = ''The computation produced no value.''"

definition tool_failure_solution :: pydict where
  "tool_failure_solution =
     [(''plan'', PStr ''Tool computation failed''),
      (''steps'', PList []),
      (''final_answer'', PStr ''Error''),
      (''confidence'', PFloat (Fin 0)),
      (''error'', PStr ''Calculator error: Could not parse mathematical expression''),
      (''tool_used'', PStr ''calculator'')]"

text \<open>The solution record of the run on \<open>Solve x^2 = 4\<close>, the state in which that
  run halts for a human, and two feedback records: an overriding answer alone, and an
  overriding answer together with a corrected problem text.\<close>

definition demo_solution :: pydict where
  "demo_solution =
     [(''plan'', PStr ''**Concept:** Quadratic. **Strategy:** 1. Take square roots.''),
      (''steps'', PList [PStr ''Take the square root of both sides'', PStr ''Keep both signs'']),
      (''final_answer'', PStr ''x = 2 or x = -2''),
      (''confidence'', PFloat f_0_92),
      (''context'', PStr [])]"

definition halted :: "PipelineState \<Rightarrow> PipelineState" where
  "halted state =
     (store_solution state demo_solution)
       \<lparr> verification_passed := PBool True,
         critique := PStr ''Correct'',
         needs_hitl := True,
         hitl_reason := Some ''Verification Failed. Solver: 0.92, Verifier: 0.6, Critique: Correct'',
         step := ''verified'' \<rparr>"

definition feedback_override :: pydict where
  "feedback_override = [(''override_answer'', PStr ''x = 2'')]"

definition feedback_both :: pydict where
  "feedback_both = [(''corrected_text'', PStr ''Solve x^2 = 4 for x > 0''),
                    (''override_answer'', PStr ''x = 2'')]"

section \<open>Guardrail gate: failing closed\<close>

lemma demo_loads_prose:
  "demo_loads (extract_json_text ''I cannot judge this plan.'') = Inl json_error"
  by (simp add: extract_json_text_def search_json_fence_def find_def rfind_def demo_loads_def
      reply_safe_def reply_unsafe_execute_def reply_correct_0_6_def reply_correct_1_def
      reply_no_confidence_def)

text \<open>
  Claim C4. When decoding the evaluator's reply raises, \<open>GuardrailAgent.check\<close> returns
  its own blocking verdict: \<open>is_safe\<close> is false and \<open>recommended_action\<close> is
  \<open>TRIGGER_HITL\<close>, never \<open>EXECUTE\<close>. The call itself returns a value on every
  reply.
\<close>

theorem check_fails_closed:
  assumes "json_loads e (extract_json_text (guardrail_run e (guardrail_prompt e problem_text plan))) = Inl msg"
  shows "check e problem_text plan = fail_closed_verdict msg
       \<and> field (check e problem_text plan) ''is_safe'' = PBool False
       \<and> field (check e problem_text plan) ''recommended_action'' = PStr ''TRIGGER_HITL''
       \<and> field (check e problem_text plan) ''recommended_action'' \<noteq> PStr ''EXECUTE''"
  using assms by (simp add: check_def fail_closed_verdict_def field_def dict_get_def)

text \<open>A reply in prose, which \<open>json.loads\<close> rejects.\<close>

theorem check_fails_closed_witness:
  "json_loads (demo_env\<lparr>guardrail_run := (\<lambda>prompt. ''I cannot judge this plan.'')\<rparr>)
     (extract_json_text ''I cannot judge this plan.'') = Inl json_error
   \<and> check (demo_env\<lparr>guardrail_run := (\<lambda>prompt. ''I cannot judge this plan.'')\<rparr>)
        (PStr ''Solve x^2 = 4'') ''1. Take square roots.'' = fail_closed_verdict json_error
   \<and> field (check (demo_env\<lparr>guardrail_run := (\<lambda>prompt. ''I cannot judge this plan.'')\<rparr>)
        (PStr ''Solve x^2 = 4'') ''1. Take square roots.'') ''recommended_action'' = PStr ''TRIGGER_HITL''"
proof -
  let ?e = "demo_env\<lparr>guardrail_run := (\<lambda>prompt. ''I cannot judge this plan.'')\<rparr>"
  have h: "json_loads ?e (extract_json_text (guardrail_run ?e
             (guardrail_prompt ?e (PStr ''Solve x^2 = 4'') ''1. Take square roots.''))) = Inl json_error"
    using demo_loads_prose by (simp add: demo_env_def)
  have h2: "json_loads ?e (extract_json_text ''I cannot judge this plan.'') = Inl json_error"
    using demo_loads_prose by (simp add: demo_env_def)
  from check_fails_closed [OF h] h2 show ?thesis by blast
qed

section \<open>Orchestrator: halting on ambiguous input\<close>

text \<open>
  Claim C5. When the parse stage reports \<open>is_ambiguous\<close>, \<open>start_pipeline\<close> returns
  at once: the state has step \<open>parsed\<close>, \<open>needs_hitl\<close> set and a reason that is not
  empty, and neither the router nor the solver, the verifier or the explainer was called.
\<close>

theorem ambiguous_input_halts:
  assumes "truthy (dict_get (parser_run e text image_path audio_path) ''is_ambiguous'' PNone)"
  shows "\<exists>calls state reason.
           start_pipeline e text image_path audio_path session_arg = (calls, Inr state)
         \<and> step state = ''parsed'' \<and> needs_hitl state
         \<and> hitl_reason state = Some reason \<and> reason \<noteq> []
         \<and> RouterRoute \<notin> set calls \<and> SolverSolve \<notin> set calls
         \<and> VerifierVerify \<notin> set calls \<and> ExplainerExplain \<notin> set calls"
  using assms by (simp add: start_pipeline_def Let_def)

text \<open>A start with no text, image or audio, for which the parser reports ambiguity.\<close>

theorem ambiguous_input_halts_witness:
  "truthy (dict_get (parser_run (demo_env\<lparr>parser_run := (\<lambda>t i a. parsed_nothing)\<rparr>) None None None)
            ''is_ambiguous'' PNone)
   \<and> (\<exists>calls state reason.
         start_pipeline (demo_env\<lparr>parser_run := (\<lambda>t i a. parsed_nothing)\<rparr>) None None None None
           = (calls, Inr state)
       \<and> step state = ''parsed'' \<and> needs_hitl state
       \<and> hitl_reason state = Some reason \<and> reason \<noteq> []
       \<and> RouterRoute \<notin> set calls \<and> SolverSolve \<notin> set calls
       \<and> VerifierVerify \<notin> set calls \<and> ExplainerExplain \<notin> set calls)"
proof -
  let ?e = "demo_env\<lparr>parser_run := (\<lambda>t i a. parsed_nothing)\<rparr>"
  have h: "truthy (dict_get (parser_run ?e None None None) ''is_ambiguous'' PNone)"
    by (simp add: parsed_nothing_def dict_get_def)
  from ambiguous_input_halts [OF h, of None] h show ?thesis by blast
qed

section \<open>Evaluating the concrete replies\<close>

lemmas reply_defs = reply_safe_def reply_unsafe_execute_def reply_correct_0_6_def
  reply_correct_1_def reply_no_confidence_def

lemma extract_replies:
  "extract_json_text reply_safe = reply_safe"
  "extract_json_text reply_unsafe_execute = reply_unsafe_execute"
  "extract_json_text reply_correct_0_6 = reply_correct_0_6"
  "extract_json_text reply_correct_1 = reply_correct_1"
  "extract_json_text reply_no_confidence = reply_no_confidence"
  by (simp_all add: extract_json_text_def search_json_fence_def find_def rfind_def slice_def reply_defs)

lemma demo_loads_replies:
  "demo_loads reply_safe = Inr verdict_safe"
  "demo_loads reply_unsafe_execute = Inr verdict_unsafe_execute"
  "demo_loads reply_correct_0_6 = Inr verdict_correct_0_6"
  "demo_loads reply_correct_1 = Inr verdict_correct_1"
  "demo_loads reply_no_confidence = Inr verdict_no_confidence"
  by (simp_all add: demo_loads_def reply_defs)

section \<open>Guardrail gate: the invariant of a verdict\<close>

text \<open>
  Claim C8, as the code has it. \<open>GuardrailAgent.check\<close> returns the decoded reply
  unchanged, so its verdict satisfies the invariant (unsafe implies not \<open>EXECUTE\<close>)
  exactly when the decoded reply does; the verdict it builds itself on a decoding failure
  always satisfies it.
\<close>

theorem check_invariant_iff_reply:
  "verdict_invariant (check e problem_text plan) =
     (case json_loads e (extract_json_text (guardrail_run e (guardrail_prompt e problem_text plan))) of
        Inr verdict \<Rightarrow> verdict_invariant verdict
      | Inl msg \<Rightarrow> True)"
  by (simp add: check_def verdict_invariant_def field_def dict_get_def split: sum.splits)

text \<open>On a reply in prose the gate's own verdict is unsafe and satisfies the invariant.\<close>

theorem check_invariant_iff_reply_witness:
  "field (check (demo_env\<lparr>guardrail_run := (\<lambda>prompt. ''I cannot judge this plan.'')\<rparr>)
            (PStr ''Solve x^2 = 4'') ''1. Take square roots.'') ''is_safe'' = PBool False
   \<and> verdict_invariant (check (demo_env\<lparr>guardrail_run := (\<lambda>prompt. ''I cannot judge this plan.'')\<rparr>)
            (PStr ''Solve x^2 = 4'') ''1. Take square roots.'')"
proof -
  let ?e = "demo_env\<lparr>guardrail_run := (\<lambda>prompt. ''I cannot judge this plan.'')\<rparr>"
  have h: "json_loads ?e (extract_json_text (guardrail_run ?e
             (guardrail_prompt ?e (PStr ''Solve x^2 = 4'') ''1. Take square roots.''))) = Inl json_error"
    using demo_loads_prose by (simp add: demo_env_def)
  have "verdict_invariant (check ?e (PStr ''Solve x^2 = 4'') ''1. Take square roots.'')"
    using check_invariant_iff_reply [of ?e "PStr ''Solve x^2 = 4''" "''1. Take square roots.''"] h
    by simp
  moreover have "field (check ?e (PStr ''Solve x^2 = 4'') ''1. Take square roots.'') ''is_safe'' = PBool False"
    using h by (simp add: check_def field_def dict_get_def)
  ultimately show ?thesis by blast
qed

text \<open>The invariant does not hold for every reply: a reply that decodes to an unsafe
  verdict recommending \<open>EXECUTE\<close> is returned as it is.\<close>

theorem unsafe_verdict_may_recommend_execute:
  "field (check (demo_env\<lparr>guardrail_run := (\<lambda>prompt. reply_unsafe_execute)\<rparr>)
            (PStr ''Solve x - y = 7'') ''1. x = 7+y'') ''is_safe'' = PBool False
   \<and> field (check (demo_env\<lparr>guardrail_run := (\<lambda>prompt. reply_unsafe_execute)\<rparr>)
            (PStr ''Solve x - y = 7'') ''1. x = 7+y'') ''recommended_action'' = PStr ''EXECUTE''
   \<and> \<not> verdict_invariant (check (demo_env\<lparr>guardrail_run := (\<lambda>prompt. reply_unsafe_execute)\<rparr>)
            (PStr ''Solve x - y = 7'') ''1. x = 7+y'')"
proof -
  have "check (demo_env\<lparr>guardrail_run := (\<lambda>prompt. reply_unsafe_execute)\<rparr>)
            (PStr ''Solve x - y = 7'') ''1. x = 7+y'' = verdict_unsafe_execute"
    by (simp add: check_def demo_env_def extract_replies demo_loads_replies)
  then show ?thesis
    by (simp add: verdict_invariant_def field_def dict_get_def verdict_unsafe_execute_def)
qed

section \<open>Solve stage: the arithmetic path\<close>

lemma compute_success:
  "\<exists>success. dict_item (compute e expression) ''success'' = Inr (PBool success)"
  by (cases "sympy_compute e expression") (auto simp add: compute_def dict_item_def)

lemma dict_item_update_other:
  "k \<noteq> k' \<Longrightarrow> dict_item (AList.update k v d) k' = dict_item d k'"
  by (simp add: dict_item_def update_conv')

lemma solve_arithmetic_returns:
  "\<exists>result success. solve_arithmetic e (PStr q) = Inr result
      \<and> dict_item result ''success'' = Inr (PBool success)"
proof (cases "parse_query e q")
  case (fields ok expression err)
  show ?thesis
  proof (cases "ok \<and> expression \<noteq> None")
    case True
    then obtain x where x: "expression = Some x" and ok: ok by auto
    obtain success where "dict_item (compute e x) ''success'' = Inr (PBool success)"
      using compute_success by blast
    then show ?thesis
      using fields x ok by (simp add: solve_arithmetic_def dict_item_update_other)
  next
    case False
    then have "solve_arithmetic e (PStr q) =
        Inr [(''success'', PBool False), (''error'', opt_str err), (''raw_query'', PStr q)]"
      using fields by (cases ok; cases expression) (simp_all add: solve_arithmetic_def)
    then show ?thesis by (auto simp add: dict_item_def)
  qed
qed

text \<open>
  Claim C3. For category \<open>ARITHMETIC\<close> the solve stage calls the calculator and nothing
  else (no retrieval, plan, guardrail check or executor call), and returns its record
  with provenance \<open>calculator\<close>: confidence 1.0 when the calculator succeeded; confidence
  0.0, final answer \<open>Error\<close>, no steps and an error annotation when it failed.
\<close>

theorem arithmetic_delegates_to_calculator:
  "\<exists>result success solution.
      solve_arithmetic e (PStr q) = Inr result
    \<and> dict_item result ''success'' = Inr (PBool success)
    \<and> solve e (PStr q) (Some ''ARITHMETIC'') context_arg = ([CalculatorSolve], Inr solution)
    \<and> dict_get solution ''tool_used'' PNone = PStr ''calculator''
    \<and> (if success
        then dict_get solution ''confidence'' PNone = PFloat (Fin 1)
        else dict_get solution ''confidence'' PNone = PFloat (Fin 0)
           \<and> dict_get solution ''final_answer'' PNone = PStr ''Error''
           \<and> dict_get solution ''steps'' PNone = PList []
           \<and> prefix ''Calculator error: '' (error_text solution))"
proof -
  obtain result success where r: "solve_arithmetic e (PStr q) = Inr result"
    and s: "dict_item result ''success'' = Inr (PBool success)"
    using solve_arithmetic_returns by blast
  show ?thesis
    using r s by (cases success) (auto simp add: solve_def solve_with_tool_def dict_get_def error_text_def)
qed

section \<open>Verify stage: a calculator answer out of range\<close>

text \<open>
  Claim C6, as the code has it. For a calculator solution whose answer parses as a number
  outside \<open>(-1e100, 1e100)\<close> the sanity check fails, and \<open>VerifierAgent.verify\<close> then
  asks the critique evaluator: the verdict is what the evaluator's reply decodes to, and
  the verifier's own failing verdict only when the reply cannot be decoded.
\<close>

theorem out_of_range_answer_goes_to_evaluator:
  assumes "dict_get solution_data ''tool_used'' PNone = PStr ''calculator''"
      and "py_float e (dict_get solution_data ''final_answer'' PNone) = Some num_val"
      and "\<not> in_range num_val"
  shows "\<not> sanity_check_calculator e solution_data
       \<and> verify e problem_text solution_data strict =
           (let content = verifier_run e (verifier_prompt e problem_text solution_data strict)
            in case json_loads e (extract_json_text content) of
                 Inr verdict \<Rightarrow> verdict
               | Inl msg \<Rightarrow> verifier_fallback msg content)"
proof -
  have s: "\<not> sanity_check_calculator e solution_data"
    using assms(2,3) by (simp add: sanity_check_calculator_def in_range_def Let_def)
  then show ?thesis
    by (simp add: verify_def verifier_fallback_def Let_def split: sum.splits)
qed

text \<open>The answer \<open>1e+200\<close>, with an evaluator that answers.\<close>

theorem out_of_range_answer_goes_to_evaluator_witness:
  "dict_get solution_1e200 ''tool_used'' PNone = PStr ''calculator''
   \<and> py_float demo_env (dict_get solution_1e200 ''final_answer'' PNone) = Some f_1e200
   \<and> \<not> in_range f_1e200
   \<and> \<not> sanity_check_calculator demo_env solution_1e200
   \<and> verify demo_env (PStr ''10^200'') solution_1e200 False = verdict_correct_0_6"
proof -
  have a: "dict_get solution_1e200 ''tool_used'' PNone = PStr ''calculator''"
    by (simp add: solution_1e200_def dict_get_def)
  have b: "py_float demo_env (dict_get solution_1e200 ''final_answer'' PNone) = Some f_1e200"
    by (simp add: solution_1e200_def dict_get_def demo_env_def demo_float_def)
  have c: "\<not> in_range f_1e200"
    by (simp add: in_range_def f_1e200_def lit_1e100_def)
  from out_of_range_answer_goes_to_evaluator [OF a b c, of "PStr ''10^200''" False] a b c
  show ?thesis
    by (simp add: demo_env_def extract_replies demo_loads_replies)
qed

text \<open>The verdict is not always a failing one: with an evaluator that approves, the
  answer \<open>1e+200\<close> is verified as correct.\<close>

theorem out_of_range_answer_verified_correct:
  "dict_get solution_1e200 ''tool_used'' PNone = PStr ''calculator''
   \<and> py_float (demo_env\<lparr>verifier_run := (\<lambda>prompt. reply_correct_1)\<rparr>)
        (dict_get solution_1e200 ''final_answer'' PNone) = Some f_1e200
   \<and> \<not> in_range f_1e200
   \<and> field (verify (demo_env\<lparr>verifier_run := (\<lambda>prompt. reply_correct_1)\<rparr>)
               (PStr ''10^200'') solution_1e200 False) ''is_correct'' = PBool True"
proof -
  have c: "\<not> in_range f_1e200"
    by (simp add: in_range_def f_1e200_def lit_1e100_def)
  have b: "py_float demo_env (PStr ''1e+200'') = Some f_1e200"
    by (simp add: demo_env_def demo_float_def)
  have s: "\<not> sanity_check_calculator (demo_env\<lparr>verifier_run := (\<lambda>prompt. reply_correct_1)\<rparr>) solution_1e200"
    using b c by (simp add: sanity_check_calculator_def in_range_def solution_1e200_def dict_get_def Let_def)
  have "verify (demo_env\<lparr>verifier_run := (\<lambda>prompt. reply_correct_1)\<rparr>)
               (PStr ''10^200'') solution_1e200 False = verdict_correct_1"
    using s by (simp add: verify_def Let_def demo_env_def extract_replies demo_loads_replies)
  then show ?thesis using b c
    by (simp add: solution_1e200_def dict_get_def field_def verdict_correct_1_def)
qed

section \<open>Decision policy\<close>

lemma float_lt_0_95_0_9: "float_lt lit_0_95 x \<Longrightarrow> float_lt lit_0_9 x"
  by (cases x) (simp_all add: lit_0_95_def lit_0_9_def)

lemma gt_0_95_0_9: "gt v lit_0_95 \<Longrightarrow> gt v lit_0_9"
  by (auto simp add: gt_def py_gt_def float_lt_0_95_0_9 split: option.splits)

lemma smart_hitl_tool:
  assumes "tool_used state = PStr ''calculator''"
      and "smart_hitl e state verifier_conf = Inr state'"
  shows "needs_hitl state' = (\<not> gt verifier_conf lit_0_5)"
    and "needs_hitl state' \<Longrightarrow>
           hitl_reason state' = Some (''Calculator Sanity Check Failed: '' @ py_str e (critique state))"
  using assms
  by (auto simp add: smart_hitl_def Let_def gt_def split: sum.splits if_splits)

lemma smart_hitl_model:
  assumes "tool_used state \<noteq> PStr ''calculator''"
      and "smart_hitl e state verifier_conf = Inr state'"
  shows "needs_hitl state' =
           (\<not> (truthy (verification_passed state) \<and> gt (confidence state) lit_0_9
                \<and> gt verifier_conf lit_0_7
              \<or> truthy (verification_passed state) \<and> gt (confidence state) lit_0_95))"
proof (cases "truthy (verification_passed state)")
  case False
  then show ?thesis
    using assms by (auto simp add: smart_hitl_def Let_def cond_and_def)
next
  case True
  show ?thesis
  proof (cases "py_gt (confidence state) lit_0_9")
    case (Inl err)
    then show ?thesis using assms True by (simp add: smart_hitl_def Let_def cond_and_def)
  next
    case (Inr b)
    show ?thesis
    proof (cases b)
      case False
      then have "\<not> gt (confidence state) lit_0_9" using Inr by (simp add: gt_def)
      then have n: "\<not> gt (confidence state) lit_0_95" using gt_0_95_0_9 by blast
      have "\<exists>c. py_gt (confidence state) lit_0_95 = Inr c"
        using Inr by (simp add: py_gt_def split: option.splits)
      then show ?thesis
        using assms True Inr False n \<open>\<not> gt (confidence state) lit_0_9\<close>
        by (auto simp add: smart_hitl_def Let_def cond_and_def gt_def split: if_splits)
    next
      case b: True
      have g9: "gt (confidence state) lit_0_9" using Inr b by (simp add: gt_def)
      obtain c where c: "py_gt (confidence state) lit_0_95 = Inr c"
        using Inr by (auto simp add: py_gt_def split: option.splits)
      show ?thesis
        using assms True Inr b c g9
        by (auto simp add: smart_hitl_def Let_def cond_and_def gt_def split: sum.splits if_splits)
    qed
  qed
qed

lemma smart_hitl_fields:
  assumes "smart_hitl e state verifier_conf = Inr state'"
  shows "tool_used state' = tool_used state"
    and "confidence state' = confidence state"
    and "verification_passed state' = verification_passed state"
    and "final_answer state' = final_answer state"
    and "step state' = step state"
  using assms
  by (auto simp add: smart_hitl_def Let_def cond_and_def split: sum.splits if_splits)

lemma problem_text_of_store_solution [simp]:
  "problem_text_of (store_solution state solution) = problem_text_of state"
  by (simp add: problem_text_of_def store_solution_def)

lemma run_solver_phase_Inr:
  assumes "run_solver_phase e state0 = (calls, Inr state)"
  shows "\<exists>verdict is_correct state2.
      verification_of e state0 = PDict verdict
    \<and> dict_item verdict ''is_correct'' = Inr is_correct
    \<and> smart_hitl e
         ((solved_state e state0)\<lparr> verification_passed := is_correct,
                                   critique := dict_get verdict ''critique'' (PStr []) \<rparr>)
         (verifier_conf_of e state0) = Inr state2
    \<and> (if needs_hitl state2 then state = state2\<lparr>step := ''verified''\<rparr>
        else state = state2\<lparr> explanation :=
                                explain e (problem_text_of state2) (solution_steps state2)
                                  (final_answer state2) (problem_category state2),
                              step := ''complete'' \<rparr>)"
proof -
  obtain c r where sv: "solve e (problem_text_of state0) (problem_category state0) [] = (c, r)"
    by (cases "solve e (problem_text_of state0) (problem_category state0) []") auto
  show ?thesis
  proof (cases r)
    case (Inl err)
    then show ?thesis using assms sv by (simp add: run_solver_phase_def)
  next
    case (Inr solution)
    let ?s1 = "store_solution state0 solution"
    have ss: "solved_state e state0 = ?s1"
      using sv Inr by (simp add: solved_state_def)
    have vo: "verification_of e state0 = verify e (problem_text_of state0) (solution_data_of ?s1) False"
      using sv Inr by (simp add: verification_of_def)
    show ?thesis
    proof (cases "verify e (problem_text_of state0) (solution_data_of ?s1) False")
      case (PDict verdict)
      have vc: "verifier_conf_of e state0 = dict_get verdict ''adjusted_confidence'' (PFloat (Fin 1))"
        using vo PDict by (simp add: verifier_conf_of_def)
      show ?thesis
        using assms sv Inr PDict
        unfolding ss vo vc
        by (auto simp add: run_solver_phase_def Let_def split: sum.splits if_splits)
    qed (use assms sv Inr in \<open>simp_all add: run_solver_phase_def Let_def\<close>)
  qed
qed

text \<open>
  Claim C1. For an attempt whose provenance is not the calculator, the state
  \<open>run_solver_phase\<close> returns has \<open>needs_hitl\<close> false exactly when the verification
  passed and the solver confidence is above 0.9 and the verifier confidence above 0.7, or
  the verification passed and the solver confidence is above 0.95.
\<close>

theorem model_attempt_hitl_policy:
  assumes "run_solver_phase e state0 = (calls, Inr state)"
      and "tool_used state \<noteq> PStr ''calculator''"
  shows "(\<not> needs_hitl state) =
           (truthy (verification_passed state) \<and> gt (confidence state) lit_0_9
              \<and> gt (verifier_conf_of e state0) lit_0_7
            \<or> truthy (verification_passed state) \<and> gt (confidence state) lit_0_95)"
proof -
  obtain verdict is_correct state2 where
    sh: "smart_hitl e
         ((solved_state e state0)\<lparr> verification_passed := is_correct,
                                   critique := dict_get verdict ''critique'' (PStr []) \<rparr>)
         (verifier_conf_of e state0) = Inr state2"
    and st: "if needs_hitl state2 then state = state2\<lparr>step := ''verified''\<rparr>
        else state = state2\<lparr> explanation :=
                                explain e (problem_text_of state2) (solution_steps state2)
                                  (final_answer state2) (problem_category state2),
                              step := ''complete'' \<rparr>"
    using run_solver_phase_Inr [OF assms(1)] by blast
  let ?s1 = "(solved_state e state0)\<lparr> verification_passed := is_correct,
                                   critique := dict_get verdict ''critique'' (PStr []) \<rparr>"
  have eqs: "needs_hitl state = needs_hitl state2" "tool_used state = tool_used state2"
            "confidence state = confidence state2"
            "verification_passed state = verification_passed state2"
    using st by (auto split: if_splits)
  have f: "tool_used state2 = tool_used ?s1" "confidence state2 = confidence ?s1"
          "verification_passed state2 = verification_passed ?s1"
    using smart_hitl_fields [OF sh] by simp_all
  have "tool_used ?s1 \<noteq> PStr ''calculator''"
    using assms(2) eqs f by simp
  from smart_hitl_model [OF this sh] show ?thesis
    using eqs f by auto
qed

text \<open>The run on \<open>Solve x^2 = 4\<close>: solver confidence 0.92, verification passed,
  verifier confidence 0.6. Neither clause applies, and the run halts for a human.\<close>

lemma demo_parse:
  "parse_executor_output demo_env executor_reply_0_92 =
     Inr ([''Take the square root of both sides'', ''Keep both signs''],
          ''x = 2 or x = -2'', f_0_92)"
  by code_simp

lemma demo_check: "check demo_env problem_text plan = verdict_safe"
  by (simp add: check_def demo_env_def extract_replies demo_loads_replies)

lemma demo_solve:
  assumes "category \<noteq> Some ''ARITHMETIC''"
  shows "solve demo_env problem_text category [] =
     ([KbQuery, PlannerRun, GuardrailCheck, ExecutorRun],
      Inr [(''plan'', PStr ''**Concept:** Quadratic. **Strategy:** 1. Take square roots.''),
           (''steps'', PList [PStr ''Take the square root of both sides'', PStr ''Keep both signs'']),
           (''final_answer'', PStr ''x = 2 or x = -2''),
           (''confidence'', PFloat f_0_92),
           (''context'', PStr [])])"
proof -
  have r: "executor_reply demo_env problem_text [] = executor_reply_0_92"
    by (simp add: executor_reply_def demo_env_def)
  have p: "plan_of demo_env problem_text = ''**Concept:** Quadratic. **Strategy:** 1. Take square roots.''"
    by (simp add: plan_of_def demo_env_def)
  have c: "context_of demo_env problem_text [] = []"
    by (simp add: context_of_def demo_env_def)
  show ?thesis
    using assms
    by (simp add: solve_def Let_def demo_check verdict_safe_def dict_get_def r p c demo_parse)
qed

lemma demo_verify_model:
  assumes "dict_get solution_data ''tool_used'' PNone \<noteq> PStr ''calculator''"
  shows "verify demo_env problem_text solution_data strict = verdict_correct_0_6"
  using assms by (simp add: verify_def demo_env_def extract_replies demo_loads_replies)

lemma gt_demo:
  "gt (PFloat f_0_92) lit_0_9" "\<not> gt (PFloat f_0_92) lit_0_95" "\<not> gt (PFloat f_0_6) lit_0_7"
  "gt (PFloat (Fin 1)) lit_0_5" "gt (PFloat (Fin 1)) lit_0_7" "\<not> gt (PFloat (Fin 0)) lit_0_5"
  by (simp_all add: gt_def py_gt_def f_0_92_def f_0_6_def lit_0_9_def lit_0_95_def lit_0_7_def lit_0_5_def)

lemma demo_state_fields:
  "problem_category (demo_state category) = Some category"
  "problem_text_of (demo_state category) = PStr ''Solve x^2 = 4''"
  by (simp_all add: demo_state_def new_state_def problem_text_of_def demo_env_def dict_get_def)

lemma demo_algebra_solved:
  "solved_state demo_env (demo_state ''ALGEBRA'') =
     store_solution (demo_state ''ALGEBRA'')
       [(''plan'', PStr ''**Concept:** Quadratic. **Strategy:** 1. Take square roots.''),
        (''steps'', PList [PStr ''Take the square root of both sides'', PStr ''Keep both signs'']),
        (''final_answer'', PStr ''x = 2 or x = -2''),
        (''confidence'', PFloat f_0_92),
        (''context'', PStr [])]"
  by (simp add: solved_state_def demo_state_fields demo_solve)

lemma demo_algebra_verification:
  "verification_of demo_env (demo_state ''ALGEBRA'') = verdict_correct_0_6"
  by (simp add: verification_of_def demo_state_fields demo_solve demo_verify_model
      solution_data_of_def store_solution_def dict_get_def)

lemma py_gt_demo:
  "py_gt (PFloat f_0_92) lit_0_9 = Inr True"
  "py_gt (PFloat f_0_92) lit_0_95 = Inr False"
  "py_gt (PFloat f_0_6) lit_0_7 = Inr False"
  "py_gt (PFloat f_0_6) lit_0_5 = Inr True"
  "py_gt (PFloat (Fin 1)) lit_0_5 = Inr True"
  "py_gt (PFloat (Fin 1)) lit_0_7 = Inr True"
  "py_gt (PFloat (Fin 0)) lit_0_5 = Inr False"
  by (simp_all add: py_gt_def f_0_92_def f_0_6_def lit_0_9_def lit_0_95_def lit_0_7_def lit_0_5_def)

lemma demo_py_str:
  "py_str demo_env (PStr s) = s"
  "py_str demo_env (PFloat f_0_92) = ''0.92''"
  "py_str demo_env (PFloat f_0_6) = ''0.6''"
  "py_str demo_env PNone = ''None''"
  by (simp_all add: py_str_def demo_env_def demo_repr_def f_0_92_def f_0_6_def)

lemma demo_algebra_run:
  "\<exists>state. run_solver_phase demo_env (demo_state ''ALGEBRA'') =
     ([SolverSolve, KbQuery, PlannerRun, GuardrailCheck, ExecutorRun,
       LogInteraction ''solver'', VerifierVerify, LogInteraction ''verifier''], Inr state)
   \<and> tool_used state = PNone
   \<and> confidence state = PFloat f_0_92
   \<and> verification_passed state = PBool True
   \<and> final_answer state = PStr ''x = 2 or x = -2''
   \<and> step state = ''verified''
   \<and> hitl_reason state = Some ''Verification Failed. Solver: 0.92, Verifier: 0.6, Critique: Correct''"
  by (simp add: run_solver_phase_def demo_state_fields demo_solve demo_verify_model
      solution_data_of_def store_solution_def dict_get_def dict_item_def verdict_correct_0_6_def
      smart_hitl_def cond_and_def Let_def py_gt_demo demo_py_str)

theorem model_attempt_hitl_policy_witness:
  "\<exists>calls state.
      run_solver_phase demo_env (demo_state ''ALGEBRA'') = (calls, Inr state)
    \<and> tool_used state \<noteq> PStr ''calculator''
    \<and> confidence state = PFloat f_0_92
    \<and> verification_passed state = PBool True
    \<and> verifier_conf_of demo_env (demo_state ''ALGEBRA'') = PFloat f_0_6
    \<and> needs_hitl state"
proof -
  obtain state where
    r: "run_solver_phase demo_env (demo_state ''ALGEBRA'') =
         ([SolverSolve, KbQuery, PlannerRun, GuardrailCheck, ExecutorRun,
           LogInteraction ''solver'', VerifierVerify, LogInteraction ''verifier''], Inr state)"
    and t: "tool_used state = PNone"
    and c: "confidence state = PFloat f_0_92"
    and v: "verification_passed state = PBool True"
    using demo_algebra_run by blast
  have t': "tool_used state \<noteq> PStr ''calculator''" using t by simp
  have vc: "verifier_conf_of demo_env (demo_state ''ALGEBRA'') = PFloat f_0_6"
    by (simp add: verifier_conf_of_def demo_algebra_verification verdict_correct_0_6_def dict_get_def)
  have "needs_hitl state"
    using model_attempt_hitl_policy [OF r t'] c v vc gt_demo by simp
  then show ?thesis using r t' c v vc by blast
qed

text \<open>
  Claim C2. For an attempt with provenance calculator, the state \<open>run_solver_phase\<close>
  returns has \<open>needs_hitl\<close> false exactly when the verifier confidence is above 0.5;
  when the flag stays set, the reason begins with "Calculator Sanity Check Failed".
\<close>

theorem tool_attempt_hitl_policy:
  assumes "run_solver_phase e state0 = (calls, Inr state)"
      and "tool_used state = PStr ''calculator''"
  shows "(\<not> needs_hitl state) = gt (verifier_conf_of e state0) lit_0_5
       \<and> (if needs_hitl state
          then \<exists>reason. hitl_reason state = Some reason
                 \<and> prefix ''Calculator Sanity Check Failed'' reason
          else step state = ''complete'')"
proof -
  obtain verdict is_correct state2 where
    sh: "smart_hitl e
         ((solved_state e state0)\<lparr> verification_passed := is_correct,
                                   critique := dict_get verdict ''critique'' (PStr []) \<rparr>)
         (verifier_conf_of e state0) = Inr state2"
    and st: "if needs_hitl state2 then state = state2\<lparr>step := ''verified''\<rparr>
        else state = state2\<lparr> explanation :=
                                explain e (problem_text_of state2) (solution_steps state2)
                                  (final_answer state2) (problem_category state2),
                              step := ''complete'' \<rparr>"
    using run_solver_phase_Inr [OF assms(1)] by blast
  let ?s1 = "(solved_state e state0)\<lparr> verification_passed := is_correct,
                                   critique := dict_get verdict ''critique'' (PStr []) \<rparr>"
  have eqs: "needs_hitl state = needs_hitl state2" "tool_used state = tool_used state2"
            "hitl_reason state = hitl_reason state2"
    using st by (auto split: if_splits)
  have "tool_used state2 = tool_used ?s1"
    using smart_hitl_fields [OF sh] by simp
  then have t: "tool_used ?s1 = PStr ''calculator''"
    using assms(2) eqs by simp
  have n: "needs_hitl state2 = (\<not> gt (verifier_conf_of e state0) lit_0_5)"
    using smart_hitl_tool(1) [OF t sh] .
  have r: "needs_hitl state2 \<Longrightarrow> \<exists>reason. hitl_reason state2 = Some reason
                 \<and> prefix ''Calculator Sanity Check Failed'' reason"
    using smart_hitl_tool(2) [OF t sh] by simp
  show ?thesis
    using n r eqs st by (auto split: if_splits)
qed

text \<open>A run routed to arithmetic on which the calculator recovers no expression and
  the evaluator answers in prose: the verifier's own verdict has confidence 0.0, and the
  run halts with the calculator's reason.\<close>

lemma demo_loads_no_value:
  "demo_loads (extract_json_text reply_no_value) = Inl json_error"
  by (simp add: extract_json_text_def search_json_fence_def find_def rfind_def demo_loads_def
      reply_defs reply_no_value_def)

lemma demo_tool_solve:
  assumes "calc_simple_parse e = (\<lambda>q. None)" and "calc_llm_parse e = (\<lambda>q. None)"
  shows "solve e (PStr q) (Some ''ARITHMETIC'') [] = ([CalculatorSolve], Inr tool_failure_solution)"
  using assms
  by (simp add: solve_def solve_with_tool_def solve_arithmetic_def parse_query_def dict_item_def
      dict_get_def opt_str_def py_str_def tool_failure_solution_def)

lemma demo_tool_sanity:
  assumes "py_float e = demo_float"
  shows "\<not> sanity_check_calculator e (solution_data_of (store_solution state tool_failure_solution))"
  using assms
  by (simp add: sanity_check_calculator_def solution_data_of_def store_solution_def
      tool_failure_solution_def dict_get_def demo_float_def Let_def)

lemma stages_ignore_verifier:
  "py_str (e\<lparr>verifier_run := f\<rparr>) = py_str e"
  "parse_query (e\<lparr>verifier_run := f\<rparr>) = parse_query e"
  "compute (e\<lparr>verifier_run := f\<rparr>) = compute e"
  "check (e\<lparr>verifier_run := f\<rparr>) = check e"
  "context_of (e\<lparr>verifier_run := f\<rparr>) = context_of e"
  "plan_of (e\<lparr>verifier_run := f\<rparr>) = plan_of e"
  "parse_answer (e\<lparr>verifier_run := f\<rparr>) = parse_answer e"
  by (auto simp add: fun_eq_iff py_str_def parse_query_def compute_def check_def
      guardrail_prompt_def context_of_def plan_of_def parse_answer_def
      split: pyval.splits option.splits sum.splits list.splits)

lemma parsing_ignores_verifier:
  "parse_executor_output (e\<lparr>verifier_run := f\<rparr>) = parse_executor_output e"
  "executor_reply (e\<lparr>verifier_run := f\<rparr>) = executor_reply e"
  "solve_arithmetic (e\<lparr>verifier_run := f\<rparr>) = solve_arithmetic e"
  by (auto simp add: fun_eq_iff parse_executor_output_def parse_sections_def executor_reply_def
      solve_arithmetic_def stages_ignore_verifier
      split: pyval.splits option.splits sum.splits list.splits prod.splits bool.splits)

lemma solve_ignores_verifier:
  "solve (e\<lparr>verifier_run := f\<rparr>) problem_text category context_arg
     = solve e problem_text category context_arg"
  by (auto simp add: solve_def solve_with_tool_def stages_ignore_verifier parsing_ignores_verifier
      Let_def split: pyval.splits sum.splits prod.splits)

lemma tool_failure_fields:
  "tool_used (store_solution state tool_failure_solution) = PStr ''calculator''"
  "confidence (store_solution state tool_failure_solution) = PFloat (Fin 0)"
  "dict_get (solution_data_of (store_solution state tool_failure_solution)) ''tool_used'' PNone
     = PStr ''calculator''"
  by (simp_all add: store_solution_def tool_failure_solution_def dict_get_def solution_data_of_def)

lemma demo_tool_verify:
  "verify (demo_env\<lparr>verifier_run := (\<lambda>prompt. r)\<rparr>) problem_text
      (solution_data_of (store_solution state tool_failure_solution)) False
   = (case demo_loads (extract_json_text r) of
        Inr verdict \<Rightarrow> verdict
      | Inl msg \<Rightarrow> verifier_fallback msg r)"
proof -
  have "\<not> sanity_check_calculator (demo_env\<lparr>verifier_run := (\<lambda>prompt. r)\<rparr>)
            (solution_data_of (store_solution state tool_failure_solution))"
    by (rule demo_tool_sanity) (simp add: demo_env_def)
  then show ?thesis
    by (simp add: verify_def verifier_fallback_def demo_env_def split: sum.splits)
qed

lemma demo_tool_solve':
  "solve (demo_env\<lparr>verifier_run := f\<rparr>) (PStr q) (Some ''ARITHMETIC'') []
     = ([CalculatorSolve], Inr tool_failure_solution)"
  by (rule demo_tool_solve) (simp_all add: demo_env_def)

lemma demo_arithmetic_solved:
  "solved_state (demo_env\<lparr>verifier_run := f\<rparr>) (demo_state ''ARITHMETIC'')
     = store_solution (demo_state ''ARITHMETIC'') tool_failure_solution"
  by (simp add: solved_state_def demo_state_fields demo_tool_solve')

lemma demo_arithmetic_verification:
  "verification_of (demo_env\<lparr>verifier_run := (\<lambda>prompt. r)\<rparr>) (demo_state ''ARITHMETIC'')
     = (case demo_loads (extract_json_text r) of
          Inr verdict \<Rightarrow> verdict
        | Inl msg \<Rightarrow> verifier_fallback msg r)"
  by (simp add: verification_of_def demo_state_fields demo_tool_solve' demo_tool_verify)

theorem tool_attempt_hitl_policy_witness:
  "\<exists>calls state.
      run_solver_phase (demo_env\<lparr>verifier_run := (\<lambda>prompt. reply_no_value)\<rparr>)
        (demo_state ''ARITHMETIC'') = (calls, Inr state)
    \<and> tool_used state = PStr ''calculator''
    \<and> verifier_conf_of (demo_env\<lparr>verifier_run := (\<lambda>prompt. reply_no_value)\<rparr>)
         (demo_state ''ARITHMETIC'') = PFloat (Fin 0)
    \<and> needs_hitl state
    \<and> (\<exists>reason. hitl_reason state = Some reason
          \<and> prefix ''Calculator Sanity Check Failed'' reason)"
proof -
  let ?e = "demo_env\<lparr>verifier_run := (\<lambda>prompt. reply_no_value)\<rparr>"
  have vo: "verification_of ?e (demo_state ''ARITHMETIC'') = verifier_fallback json_error reply_no_value"
    by (simp add: demo_arithmetic_verification demo_loads_no_value)
  have vc: "verifier_conf_of ?e (demo_state ''ARITHMETIC'') = PFloat (Fin 0)"
    by (simp add: verifier_conf_of_def vo verifier_fallback_def dict_get_def)
  have "\<exists>calls state. run_solver_phase ?e (demo_state ''ARITHMETIC'') = (calls, Inr state)
          \<and> tool_used state = PStr ''calculator''"
    by (simp add: run_solver_phase_def demo_state_fields demo_tool_solve' demo_tool_verify
        demo_loads_no_value verifier_fallback_def dict_item_def dict_get_def Let_def
        smart_hitl_def tool_failure_fields py_gt_demo)
  then obtain calls state where
    r: "run_solver_phase ?e (demo_state ''ARITHMETIC'') = (calls, Inr state)"
    and t: "tool_used state = PStr ''calculator''" by blast
  from tool_attempt_hitl_policy [OF r t] vc gt_demo
  have "needs_hitl state \<and> (\<exists>reason. hitl_reason state = Some reason
          \<and> prefix ''Calculator Sanity Check Failed'' reason)"
    by (auto split: if_splits)
  then show ?thesis using r t vc by blast
qed

section \<open>Decision policy: a verdict without a confidence\<close>

lemma smart_hitl_default_conf:
  assumes "tool_used state = PStr ''calculator''
           \<or> truthy (verification_passed state) \<and> gt (confidence state) lit_0_9"
  shows "smart_hitl e state (PFloat (Fin 1)) = Inr (state\<lparr>needs_hitl := False\<rparr>)"
  using assms
  by (auto simp add: smart_hitl_def Let_def cond_and_def gt_def py_gt_demo)

text \<open>
  Claim C10. When the verifier's verdict has no \<open>adjusted_confidence\<close> key, the decision
  reads the verifier confidence as 1.0: a calculator attempt is cleared, and so is a model
  attempt whose verification passed with solver confidence above 0.9. The run then goes on
  to the explanation and completes. (The verdict has an \<open>is_correct\<close> key, without
  which the orchestrator raises before the decision.)
\<close>

theorem missing_verifier_confidence_counts_as_one:
  assumes vo: "verification_of e state0 = PDict verdict"
      and nc: "\<not> dict_has verdict ''adjusted_confidence''"
      and ic: "dict_item verdict ''is_correct'' = Inr is_correct"
      and cl: "tool_used (solved_state e state0) = PStr ''calculator''
               \<or> truthy is_correct \<and> gt (confidence (solved_state e state0)) lit_0_9"
  shows "verifier_conf_of e state0 = PFloat (Fin 1)
       \<and> (\<exists>calls state. run_solver_phase e state0 = (calls, Inr state)
             \<and> \<not> needs_hitl state \<and> step state = ''complete'')"
proof -
  have vc: "dict_get verdict ''adjusted_confidence'' (PFloat (Fin 1)) = PFloat (Fin 1)"
    using nc by (simp add: dict_has_def dict_get_def)
  then have c1: "verifier_conf_of e state0 = PFloat (Fin 1)"
    using vo by (simp add: verifier_conf_of_def)
  obtain c r where sv: "solve e (problem_text_of state0) (problem_category state0) [] = (c, r)"
    by (cases "solve e (problem_text_of state0) (problem_category state0) []") auto
  show ?thesis
  proof (cases r)
    case (Inl err)
    then show ?thesis using vo sv by (simp add: verification_of_def)
  next
    case (Inr solution)
    let ?s1 = "store_solution state0 solution"
    let ?s2 = "?s1\<lparr> verification_passed := is_correct,
                      critique := dict_get verdict ''critique'' (PStr []) \<rparr>"
    have ss: "solved_state e state0 = ?s1"
      using sv Inr by (simp add: solved_state_def)
    have v: "verify e (problem_text_of state0) (solution_data_of ?s1) False = PDict verdict"
      using vo sv Inr by (simp add: verification_of_def)
    have "tool_used ?s2 = PStr ''calculator''
          \<or> truthy (verification_passed ?s2) \<and> gt (confidence ?s2) lit_0_9"
      using cl ss by simp
    then have sh: "smart_hitl e ?s2 (PFloat (Fin 1)) = Inr (?s2\<lparr>needs_hitl := False\<rparr>)"
      by (rule smart_hitl_default_conf)
    have "\<exists>calls state. run_solver_phase e state0 = (calls, Inr state)
             \<and> \<not> needs_hitl state \<and> step state = ''complete''"
      using sv Inr v ic vc sh by (simp add: run_solver_phase_def Let_def)
    then show ?thesis using c1 by blast
  qed
qed

text \<open>An evaluator that reports a verdict without a confidence: the model attempt with
  solver confidence 0.92 is cleared, and so is the calculator attempt that computed
  nothing.\<close>

lemma demo_model_verify:
  assumes "dict_get solution_data ''tool_used'' PNone \<noteq> PStr ''calculator''"
  shows "verify (demo_env\<lparr>verifier_run := (\<lambda>prompt. r)\<rparr>) problem_text solution_data strict
   = (case demo_loads (extract_json_text r) of
        Inr verdict \<Rightarrow> verdict
      | Inl msg \<Rightarrow> verifier_fallback msg r)"
  using assms
  by (simp add: verify_def verifier_fallback_def demo_env_def split: sum.splits)

lemma verdict_no_confidence_fields:
  "\<not> dict_has [(''is_correct'', PBool True), (''critique'', PStr ''Looks fine'')] ''adjusted_confidence''"
  "dict_item [(''is_correct'', PBool True), (''critique'', PStr ''Looks fine'')] ''is_correct''
     = Inr (PBool True)"
  by (simp_all add: dict_has_def dict_item_def)

theorem missing_verifier_confidence_counts_as_one_witness:
  "verification_of (demo_env\<lparr>verifier_run := (\<lambda>prompt. reply_no_confidence)\<rparr>)
     (demo_state ''ALGEBRA'') = verdict_no_confidence
   \<and> confidence (solved_state (demo_env\<lparr>verifier_run := (\<lambda>prompt. reply_no_confidence)\<rparr>)
        (demo_state ''ALGEBRA'')) = PFloat f_0_92
   \<and> verifier_conf_of (demo_env\<lparr>verifier_run := (\<lambda>prompt. reply_no_confidence)\<rparr>)
        (demo_state ''ALGEBRA'') = PFloat (Fin 1)
   \<and> (\<exists>calls state.
         run_solver_phase (demo_env\<lparr>verifier_run := (\<lambda>prompt. reply_no_confidence)\<rparr>)
           (demo_state ''ALGEBRA'') = (calls, Inr state)
         \<and> \<not> needs_hitl state \<and> step state = ''complete'')
   \<and> verification_of (demo_env\<lparr>verifier_run := (\<lambda>prompt. reply_no_confidence)\<rparr>)
        (demo_state ''ARITHMETIC'') = verdict_no_confidence
   \<and> tool_used (solved_state (demo_env\<lparr>verifier_run := (\<lambda>prompt. reply_no_confidence)\<rparr>)
        (demo_state ''ARITHMETIC'')) = PStr ''calculator''
   \<and> (\<exists>calls state.
         run_solver_phase (demo_env\<lparr>verifier_run := (\<lambda>prompt. reply_no_confidence)\<rparr>)
           (demo_state ''ARITHMETIC'') = (calls, Inr state)
         \<and> \<not> needs_hitl state \<and> step state = ''complete'')"
proof -
  let ?e = "demo_env\<lparr>verifier_run := (\<lambda>prompt. reply_no_confidence)\<rparr>"
  let ?verdict = "[(''is_correct'', PBool True), (''critique'', PStr ''Looks fine'')]"
  have ss: "solved_state ?e (demo_state ''ALGEBRA'') = solved_state demo_env (demo_state ''ALGEBRA'')"
    by (simp add: solved_state_def solve_ignores_verifier)
  have c: "confidence (solved_state ?e (demo_state ''ALGEBRA'')) = PFloat f_0_92"
    by (simp add: ss demo_algebra_solved store_solution_def dict_get_def)
  have t: "tool_used (solved_state ?e (demo_state ''ALGEBRA'')) = PNone"
    by (simp add: ss demo_algebra_solved store_solution_def dict_get_def)
  have vm: "verification_of ?e (demo_state ''ALGEBRA'') = PDict ?verdict"
    by (simp add: verification_of_def solve_ignores_verifier demo_state_fields demo_solve
        demo_model_verify solution_data_of_def store_solution_def dict_get_def
        extract_replies demo_loads_replies verdict_no_confidence_def)
  have m: "tool_used (solved_state ?e (demo_state ''ALGEBRA'')) = PStr ''calculator''
           \<or> truthy (PBool True) \<and> gt (confidence (solved_state ?e (demo_state ''ALGEBRA''))) lit_0_9"
    using c gt_demo by simp
  have tt: "tool_used (solved_state ?e (demo_state ''ARITHMETIC'')) = PStr ''calculator''"
    by (simp add: demo_arithmetic_solved tool_failure_fields)
  have vt: "verification_of ?e (demo_state ''ARITHMETIC'') = PDict ?verdict"
    by (simp add: demo_arithmetic_verification extract_replies demo_loads_replies
        verdict_no_confidence_def)
  have tc: "tool_used (solved_state ?e (demo_state ''ARITHMETIC'')) = PStr ''calculator''
           \<or> truthy (PBool True) \<and> gt (confidence (solved_state ?e (demo_state ''ARITHMETIC''))) lit_0_9"
    using tt by simp
  from missing_verifier_confidence_counts_as_one
         [OF vm verdict_no_confidence_fields(1) verdict_no_confidence_fields(2) m]
       missing_verifier_confidence_counts_as_one
         [OF vt verdict_no_confidence_fields(1) verdict_no_confidence_fields(2) tc]
       vm vt c tt
  show ?thesis by (simp add: verdict_no_confidence_def)
qed

section \<open>Orchestrator: resuming with an overriding answer\<close>

text \<open>
  Claim C9, as the code has it. Resumed with feedback that holds an \<open>override_answer\<close>
  and no \<open>corrected_text\<close>, the state is complete, verification passed, no human is
  needed, the final answer is the override, and, when the problem text and the answer are
  not empty, one learning record is handed to the knowledge store under the id
  \<open>learn_\<close> and the first eight characters of the session id.
\<close>

theorem override_answer_completes:
  assumes "dict_has feedback ''override_answer''"
      and "\<not> dict_has feedback ''corrected_text''"
  shows "\<exists>calls state'.
           resume_with_feedback e state feedback = (calls, Inr state')
         \<and> step state' = ''complete''
         \<and> verification_passed state' = PBool True
         \<and> \<not> needs_hitl state'
         \<and> final_answer state' = dict_get feedback ''override_answer'' PNone
         \<and> (if truthy (dict_get (parsed_data state) ''problem_text'' PNone)
                \<and> truthy (final_answer state')
             then \<exists>doc_text metadata.
                    calls = [ExplainerExplain,
                             KbAdd doc_text metadata (''learn_'' @ take 8 (session_id state))]
                  \<and> dict_get metadata ''type'' PNone = PStr ''solved_example''
             else calls = [ExplainerExplain])"
  using assms
  by (simp add: resume_with_feedback_def learn_from_success_def Let_def dict_get_def)

text \<open>The halted run on \<open>Solve x^2 = 4\<close>, overridden with \<open>x = 2\<close>.\<close>

theorem override_answer_completes_witness:
  "dict_has feedback_override ''override_answer''
   \<and> \<not> dict_has feedback_override ''corrected_text''
   \<and> (\<exists>calls state'.
          resume_with_feedback demo_env (halted (demo_state ''ALGEBRA'')) feedback_override
            = (calls, Inr state')
        \<and> step state' = ''complete''
        \<and> verification_passed state' = PBool True
        \<and> \<not> needs_hitl state'
        \<and> final_answer state' = PStr ''x = 2''
        \<and> (\<exists>doc_text metadata.
              calls = [ExplainerExplain, KbAdd doc_text metadata ''learn_0b5c2a9e'']))"
proof -
  have a: "dict_has feedback_override ''override_answer''"
    and b: "\<not> dict_has feedback_override ''corrected_text''"
    by (simp_all add: feedback_override_def dict_has_def)
  have p: "truthy (dict_get (parsed_data (halted (demo_state ''ALGEBRA''))) ''problem_text'' PNone)"
    by (simp add: halted_def store_solution_def demo_state_def new_state_def demo_env_def dict_get_def)
  have s: "''learn_'' @ take 8 (session_id (halted (demo_state ''ALGEBRA''))) = ''learn_0b5c2a9e''"
    by (simp add: halted_def store_solution_def demo_state_def new_state_def demo_env_def)
  have o: "dict_get feedback_override ''override_answer'' PNone = PStr ''x = 2''"
    by (simp add: feedback_override_def dict_get_def)
  from override_answer_completes [OF a b, of demo_env "halted (demo_state ''ALGEBRA'')"]
  obtain calls state' where
      r: "resume_with_feedback demo_env (halted (demo_state ''ALGEBRA'')) feedback_override
            = (calls, Inr state')"
    and f: "step state' = ''complete''" "verification_passed state' = PBool True"
           "\<not> needs_hitl state'" "final_answer state' = PStr ''x = 2''"
    and c: "if truthy (dict_get (parsed_data (halted (demo_state ''ALGEBRA''))) ''problem_text'' PNone)
               \<and> truthy (final_answer state')
            then \<exists>doc_text metadata.
                   calls = [ExplainerExplain,
                            KbAdd doc_text metadata
                              (''learn_'' @ take 8 (session_id (halted (demo_state ''ALGEBRA''))))]
                 \<and> dict_get metadata ''type'' PNone = PStr ''solved_example''
            else calls = [ExplainerExplain]"
    unfolding o by blast
  have "\<exists>doc_text metadata. calls = [ExplainerExplain, KbAdd doc_text metadata ''learn_0b5c2a9e'']"
    using c p f(4) s by auto
  then show ?thesis using a b r f by blast
qed

text \<open>With a \<open>corrected_text\<close> in the same feedback the first branch is taken: the
  problem is routed and solved again, the override is not read, and the run halts again at
  \<open>verified\<close> with the solver's answer.\<close>

lemma demo_run_any:
  assumes "problem_category state = Some ''ALGEBRA''"
  shows "run_solver_phase demo_env state =
     ([SolverSolve, KbQuery, PlannerRun, GuardrailCheck, ExecutorRun,
       LogInteraction ''solver'', VerifierVerify, LogInteraction ''verifier''],
      Inr (halted state))"
  using assms
  by (simp add: run_solver_phase_def demo_solve demo_verify_model halted_def demo_solution_def
      solution_data_of_def store_solution_def dict_get_def dict_item_def verdict_correct_0_6_def
      smart_hitl_def cond_and_def Let_def py_gt_demo demo_py_str)

lemma demo_upper: "ascii_upper (strip ''algebra'') = ''ALGEBRA''"
  by code_simp

lemma demo_route: "route demo_env problem_text = ''ALGEBRA''"
  by (simp add: route_def demo_env_def demo_upper)

theorem corrected_text_precedes_override:
  "dict_has feedback_both ''override_answer''
   \<and> fst (resume_with_feedback demo_env (halted (demo_state ''ALGEBRA'')) feedback_both)
       = [RouterRoute, SolverSolve, KbQuery, PlannerRun, GuardrailCheck, ExecutorRun,
          LogInteraction ''solver'', VerifierVerify, LogInteraction ''verifier'']
   \<and> map_sum id step
         (snd (resume_with_feedback demo_env (halted (demo_state ''ALGEBRA'')) feedback_both))
       = Inr ''verified''
   \<and> map_sum id needs_hitl
         (snd (resume_with_feedback demo_env (halted (demo_state ''ALGEBRA'')) feedback_both))
       = Inr True
   \<and> map_sum id final_answer
         (snd (resume_with_feedback demo_env (halted (demo_state ''ALGEBRA'')) feedback_both))
       = Inr (PStr ''x = 2 or x = -2'')"
proof -
  have "resume_with_feedback demo_env (halted (demo_state ''ALGEBRA'')) feedback_both
       = ([RouterRoute, SolverSolve, KbQuery, PlannerRun, GuardrailCheck, ExecutorRun,
           LogInteraction ''solver'', VerifierVerify, LogInteraction ''verifier''],
          Inr (halted ((halted (demo_state ''ALGEBRA''))
                 \<lparr> parsed_data :=
                     AList.update ''is_ambiguous'' (PBool False)
                       (AList.update ''problem_text'' (PStr ''Solve x^2 = 4 for x > 0'')
                          (parsed_data (halted (demo_state ''ALGEBRA'')))),
                   needs_hitl := False,
                   problem_category := Some ''ALGEBRA'' \<rparr>)))"
    by (simp add: feedback_both_def dict_has_def resume_with_feedback_def Let_def demo_route
        demo_run_any dict_get_def)
  moreover have "step (halted state) = ''verified'' \<and> needs_hitl (halted state)
       \<and> final_answer (halted state) = PStr ''x = 2 or x = -2''" for state
    by (simp add: halted_def store_solution_def demo_solution_def dict_get_def)
  moreover have "dict_has feedback_both ''override_answer''"
    by (simp add: feedback_both_def dict_has_def)
  ultimately show ?thesis by simp
qed

end
